theory Spec2Isabelle
  imports Complex_Main "HOL-Library.AList" "HOL-Library.Multiset" "HOL-Library.Char_ord"
    "HOL-Library.List_Lexorder"
begin

section \<open>Python values and the operations the scripts use on them\<close>

text \<open>
  The three programs (\<^verbatim>\<open>scripts/migrate_timestamps.py\<close>, \<^verbatim>\<open>scripts/fix_timestamps.py\<close> and
  \<^verbatim>\<open>crates/dispatch/examples/simple-orchestrator.py\<close>) work on whatever \<^verbatim>\<open>json.loads\<close>
  returns: \<^verbatim>\<open>None\<close>, booleans, integers, floats, strings, lists and dictionaries. A float
  is given by its value: \<^verbatim>\<open>json.loads\<close> also accepts the literals \<^verbatim>\<open>NaN\<close>, \<^verbatim>\<open>Infinity\<close> and
  \<^verbatim>\<open>-Infinity\<close>, and a finite float is the rational number it stands for. A dictionary is
  an association list read through \<open>map_of\<close>; \<^verbatim>\<open>d[k] = v\<close> is \<open>AList.update\<close>, which keeps
  the position of an existing key and appends a new one, as Python dictionaries do.
\<close>

datatype pyfloat = NaN | PosInf | NegInf | Finite rat

datatype json =
    JNull
  | JBool bool
  | JNum int
  | JFloat pyfloat
  | JStr string
  | JArr "json list"
  | JObj "(string \<times> json) list"

datatype py_error = AttributeError | KeyError | TypeError | OSError

text \<open>Python truthiness, as tested by \<^verbatim>\<open>if not x\<close>.\<close>

fun truthy :: "json \<Rightarrow> bool" where
  "truthy JNull = False"
| "truthy (JBool b) = b"
| "truthy (JNum n) = (n \<noteq> 0)"
| "truthy (JFloat f) = (f \<noteq> Finite 0)"
| "truthy (JStr s) = (s \<noteq> [])"
| "truthy (JArr xs) = (xs \<noteq> [])"
| "truthy (JObj kvs) = (kvs \<noteq> [])"

text \<open>
  The number a boolean, an integer or a float stands for in a comparison
  (\<^verbatim>\<open>True == 1 == 1.0\<close>); other values are no numbers.
\<close>

fun number :: "json \<Rightarrow> pyfloat option" where
  "number (JBool x) = Some (Finite (if x then 1 else 0))"
| "number (JNum n) = Some (Finite (of_int n))"
| "number (JFloat f) = Some f"
| "number _ = None"

text \<open>
  Python \<^verbatim>\<open>==\<close> on these values. Numbers are compared by value, and \<^verbatim>\<open>NaN\<close> equals
  nothing, itself included. Strings are compared with strings. Lists are compared
  element by element and dictionaries as mappings, whatever the order of their keys;
  inside a list or a dictionary two elements are equal when they are the same object or
  \<^verbatim>\<open>==\<close> holds, and \<^verbatim>\<open>json.loads\<close> returns one and the same object for every \<^verbatim>\<open>NaN\<close>, so
  that there \<^verbatim>\<open>NaN\<close> equals \<^verbatim>\<open>NaN\<close>.
\<close>

fun py_eq :: "json \<Rightarrow> json \<Rightarrow> bool" where
  "py_eq JNull b = (b = JNull)"
| "py_eq (JBool x) b =
     (case number b of Some g \<Rightarrow> g = Finite (if x then 1 else 0) | None \<Rightarrow> False)"
| "py_eq (JNum n) b = (case number b of Some g \<Rightarrow> g = Finite (of_int n) | None \<Rightarrow> False)"
| "py_eq (JFloat f) b = (case number b of Some g \<Rightarrow> f \<noteq> NaN \<and> g = f | None \<Rightarrow> False)"
| "py_eq (JStr s) b = (b = JStr s)"
| "py_eq (JArr xs) b = (case b of
       JArr ys \<Rightarrow>
         list_all2 (\<lambda>x y. (x = JFloat NaN \<and> y = JFloat NaN) \<or> py_eq x y) xs ys
     | _ \<Rightarrow> False)"
| "py_eq (JObj kvs) b = (case b of
       JObj kws \<Rightarrow>
         list_all (\<lambda>(k, v). map_of kvs k = Some v \<longrightarrow>
                     (case map_of kws k of
                        None \<Rightarrow> False
                      | Some w \<Rightarrow> (v = JFloat NaN \<and> w = JFloat NaN) \<or> py_eq v w)) kvs
         \<and> list_all (\<lambda>(k, w). map_of kvs k \<noteq> None) kws
     | _ \<Rightarrow> False)"

text \<open>\<^verbatim>\<open>x.get(k, default)\<close>: only a dictionary has the method.\<close>

fun dict_get :: "json \<Rightarrow> string \<Rightarrow> json \<Rightarrow> py_error + json" where
  "dict_get (JObj kvs) k d = Inr (case map_of kvs k of Some v \<Rightarrow> v | None \<Rightarrow> d)"
| "dict_get _ k d = Inl AttributeError"

text \<open>
  The value a dictionary's \<^verbatim>\<open>d.get(k)\<close> returns, \<open>JNull\<close> being \<^verbatim>\<open>None\<close>; used to state
  what the functions below do.
\<close>

definition field_of :: "(string \<times> json) list \<Rightarrow> string \<Rightarrow> json" where
  "field_of kvs k = (case map_of kvs k of Some v \<Rightarrow> v | None \<Rightarrow> JNull)"

text \<open>\<^verbatim>\<open>x[k]\<close> with a string key: \<^verbatim>\<open>KeyError\<close> on a dictionary without the key.\<close>

fun subscript :: "json \<Rightarrow> string \<Rightarrow> py_error + json" where
  "subscript (JObj kvs) k = (case map_of kvs k of Some v \<Rightarrow> Inr v | None \<Rightarrow> Inl KeyError)"
| "subscript _ k = Inl TypeError"

text \<open>
  \<^verbatim>\<open>x[:8]\<close>, which the progress messages apply to the issue identifier: strings and lists
  can be sliced, anything else raises (named \<open>TypeError\<close> here; a dictionary raises
  \<^verbatim>\<open>KeyError\<close> instead from Python 3.12 on).
\<close>

fun slice8 :: "json \<Rightarrow> py_error + json" where
  "slice8 (JStr s) = Inr (JStr (take 8 s))"
| "slice8 (JArr xs) = Inr (JArr (take 8 xs))"
| "slice8 _ = Inl TypeError"

text \<open>
  A progress message that formats \<^verbatim>\<open>issue_id[:8]\<close> and is followed by \<^verbatim>\<open>return b\<close>.
  The text of progress messages is not modelled, the exception they can raise is.
\<close>

definition print_then_return :: "json \<Rightarrow> bool \<Rightarrow> py_error + bool" where
  "print_then_return issue_id b = (case slice8 issue_id of Inl e \<Rightarrow> Inl e | Inr _ \<Rightarrow> Inr b)"

text \<open>The warnings and errors the programs report to the operator.\<close>

datatype message = ParseWarning | NoIdWarning | QueryError | ClaimFailed

text \<open>
  What one call on an issue file did: the content written back to the file, if it was
  written; the warnings printed; the value returned or the exception raised.
\<close>

record outcome =
  written :: "json option"
  warnings :: "message list"
  ret :: "py_error + bool"

definition returns :: "message list \<Rightarrow> bool \<Rightarrow> outcome" where
  "returns ws b = \<lparr>written = None, warnings = ws, ret = Inr b\<rparr>"

definition raises :: "py_error \<Rightarrow> outcome" where
  "raises e = \<lparr>written = None, warnings = [], ret = Inl e\<rparr>"

section \<open>The event log reader (both scripts, \<^verbatim>\<open>load_events\<close>)\<close>

text \<open>
  \<^verbatim>\<open>str.strip\<close> and \<^verbatim>\<open>json.loads\<close> are library functions, taken as parameters; \<open>loads\<close>
  returns \<open>None\<close> where \<^verbatim>\<open>json.loads\<close> raises \<^verbatim>\<open>JSONDecodeError\<close>. The result is the
  list of events and the warnings printed.
\<close>

fun load_lines :: "(string \<Rightarrow> string) \<Rightarrow> (string \<Rightarrow> json option) \<Rightarrow> string list
    \<Rightarrow> json list \<times> message list" where
  "load_lines strip loads [] = ([], [])"
| "load_lines strip loads (l # ls) =
     (let line = strip l; (events, ws) = load_lines strip loads ls in
      if line \<noteq> [] then
        (case loads line of
           Some e \<Rightarrow> (e # events, ws)
         | None \<Rightarrow> (events, ParseWarning # ws))
      else (events, ws))"

text \<open>The file may be absent (\<open>None\<close>): then there are no events.\<close>

definition load_events :: "(string \<Rightarrow> string) \<Rightarrow> (string \<Rightarrow> json option) \<Rightarrow> string list option
    \<Rightarrow> json list \<times> message list" where
  "load_events strip loads events_file =
     (case events_file of None \<Rightarrow> ([], []) | Some ls \<Rightarrow> load_lines strip loads ls)"

section \<open>Migrate (\<^verbatim>\<open>scripts/migrate_timestamps.py\<close>)\<close>

text \<open>\<^verbatim>\<open>[e for e in events if e.get('issue_id') == issue_id]\<close>\<close>

fun issue_events_of :: "json \<Rightarrow> json list \<Rightarrow> py_error + json list" where
  "issue_events_of issue_id [] = Inr []"
| "issue_events_of issue_id (e # es) =
     (case dict_get e ''issue_id'' JNull of
        Inl err \<Rightarrow> Inl err
      | Inr v \<Rightarrow>
          (case issue_events_of issue_id es of
             Inl err \<Rightarrow> Inl err
           | Inr r \<Rightarrow> Inr (if py_eq v issue_id then e # r else r)))"

text \<open>The loop that looks for the first \<^verbatim>\<open>issue_created\<close> event; \<open>JNull\<close> is \<^verbatim>\<open>None\<close>.\<close>

fun find_created :: "json list \<Rightarrow> py_error + json" where
  "find_created [] = Inr JNull"
| "find_created (event # rest) =
     (case dict_get event ''event_type'' JNull of
        Inl err \<Rightarrow> Inl err
      | Inr t \<Rightarrow>
          if py_eq t (JStr ''issue_created'') then dict_get event ''timestamp'' JNull
          else find_created rest)"

definition find_timestamps_from_events :: "json \<Rightarrow> json list \<Rightarrow> py_error + (json \<times> json)" where
  "find_timestamps_from_events issue_id events =
     (case issue_events_of issue_id events of
        Inl err \<Rightarrow> Inl err
      | Inr issue_events \<Rightarrow>
          if issue_events = [] then Inr (JNull, JNull)
          else
            (case find_created issue_events of
               Inl err \<Rightarrow> Inl err
             | Inr created_at \<Rightarrow>
                 (case dict_get (last issue_events) ''timestamp'' JNull of
                    Inl err \<Rightarrow> Inl err
                  | Inr updated_at \<Rightarrow> Inr (created_at, updated_at))))"

text \<open>
  \<open>migrate_issue issue events dry_run file_timestamp\<close>: \<open>issue\<close> is what \<^verbatim>\<open>json.load\<close>
  read from the issue file and \<open>file_timestamp\<close> what \<^verbatim>\<open>get_file_mtime_rfc3339\<close> returns
  for it (the file's modification time, formatted by \<^verbatim>\<open>to_rfc3339\<close>).
\<close>

definition migrate_issue :: "json \<Rightarrow> json list \<Rightarrow> bool \<Rightarrow> string \<Rightarrow> outcome" where
  "migrate_issue issue events dry_run file_timestamp =
     (case dict_get issue ''id'' JNull of
        Inl err \<Rightarrow> raises err
      | Inr issue_id \<Rightarrow>
          if \<not> truthy issue_id then returns [NoIdWarning] False
          else
            (case issue of
               JObj kvs \<Rightarrow>
                 if map_of kvs ''created_at'' \<noteq> None \<and> map_of kvs ''updated_at'' \<noteq> None
                 then returns [] False
                 else
                   (case find_timestamps_from_events issue_id events of
                      Inl err \<Rightarrow> raises err
                    | Inr (c, u) \<Rightarrow>
                        (case (if \<not> truthy c then slice8 issue_id else Inr JNull) of
                           Inl err \<Rightarrow> raises err
                         | Inr _ \<Rightarrow>
                             (let created_at = (if \<not> truthy c then JStr file_timestamp else c);
                                  updated_at = (if \<not> truthy u then JStr file_timestamp else u);
                                  issue' = JObj (AList.update ''updated_at'' updated_at
                                             (AList.update ''created_at'' created_at kvs))
                              in if dry_run
                                 then \<lparr>written = None, warnings = [],
                                       ret = print_then_return issue_id True\<rparr>
                                 else \<lparr>written = Some issue', warnings = [],
                                       ret = print_then_return issue_id True\<rparr>)))
             | _ \<Rightarrow> raises AttributeError))"

text \<open>
  The loop of \<^verbatim>\<open>main\<close> over the issue files, each given with its modification time:
  the contents of the files afterwards, the warnings, and the number of modified issues
  (or the exception that ended the pass).
\<close>

fun migrate_files :: "json list \<Rightarrow> bool \<Rightarrow> (json \<times> string) list \<Rightarrow> nat
    \<Rightarrow> json list \<times> message list \<times> (py_error + nat)" where
  "migrate_files events dry_run [] modified_count = ([], [], Inr modified_count)"
| "migrate_files events dry_run ((issue, mtime) # fs) modified_count =
     (let r = migrate_issue issue events dry_run mtime;
          content = (case written r of Some i \<Rightarrow> i | None \<Rightarrow> issue)
      in case ret r of
           Inl err \<Rightarrow> (content # map fst fs, warnings r, Inl err)
         | Inr b \<Rightarrow>
             (case migrate_files events dry_run fs (if b then modified_count + 1 else modified_count) of
                (rest, ws, res) \<Rightarrow> (content # rest, warnings r @ ws, res)))"

section \<open>Repair (\<^verbatim>\<open>scripts/fix_timestamps.py\<close>)\<close>

definition fix_issue_timestamps :: "json \<Rightarrow> json list \<Rightarrow> bool \<Rightarrow> outcome" where
  "fix_issue_timestamps issue events dry_run =
     (case dict_get issue ''id'' JNull of
        Inl err \<Rightarrow> raises err
      | Inr issue_id \<Rightarrow>
          if \<not> truthy issue_id then returns [NoIdWarning] False
          else
            (case issue of
               JObj kvs \<Rightarrow>
                 (let old_created = (case map_of kvs ''created_at'' of Some v \<Rightarrow> v | None \<Rightarrow> JNull);
                      old_updated = (case map_of kvs ''updated_at'' of Some v \<Rightarrow> v | None \<Rightarrow> JNull)
                  in if \<not> truthy old_created \<or> \<not> truthy old_updated
                     then \<lparr>written = None, warnings = [], ret = print_then_return issue_id False\<rparr>
                     else
                       (case issue_events_of issue_id events of
                          Inl err \<Rightarrow> raises err
                        | Inr [] \<Rightarrow>
                            \<lparr>written = None, warnings = [], ret = print_then_return issue_id False\<rparr>
                        | Inr (e0 # es) \<Rightarrow>
                            (case dict_get e0 ''timestamp'' JNull of
                               Inl err \<Rightarrow> raises err
                             | Inr first_timestamp \<Rightarrow>
                                 (case dict_get (last (e0 # es)) ''timestamp'' JNull of
                                    Inl err \<Rightarrow> raises err
                                  | Inr last_timestamp \<Rightarrow>
                                      if \<not> truthy first_timestamp \<or> \<not> truthy last_timestamp
                                      then \<lparr>written = None, warnings = [],
                                            ret = print_then_return issue_id False\<rparr>
                                      else if py_eq old_created first_timestamp
                                              \<and> py_eq old_updated last_timestamp
                                      then returns [] False
                                      else if dry_run
                                      then \<lparr>written = None, warnings = [],
                                            ret = print_then_return issue_id True\<rparr>
                                      else \<lparr>written = Some (JObj
                                               (AList.update ''updated_at'' last_timestamp
                                                 (AList.update ''created_at'' first_timestamp kvs))),
                                            warnings = [],
                                            ret = print_then_return issue_id True\<rparr>))))
             | _ \<Rightarrow> raises AttributeError))"

fun fix_files :: "json list \<Rightarrow> bool \<Rightarrow> json list \<Rightarrow> nat
    \<Rightarrow> json list \<times> message list \<times> (py_error + nat)" where
  "fix_files events dry_run [] modified_count = ([], [], Inr modified_count)"
| "fix_files events dry_run (issue # fs) modified_count =
     (let r = fix_issue_timestamps issue events dry_run;
          content = (case written r of Some i \<Rightarrow> i | None \<Rightarrow> issue)
      in case ret r of
           Inl err \<Rightarrow> (content # fs, warnings r, Inl err)
         | Inr b \<Rightarrow>
             (case fix_files events dry_run fs (if b then modified_count + 1 else modified_count) of
                (rest, ws, res) \<Rightarrow> (content # rest, warnings r @ ws, res)))"

section \<open>The dispatch scheduler (\<^verbatim>\<open>simple-orchestrator.py\<close>)\<close>

record agent =
  agent_id :: string
  max_concurrent :: int
  current_load :: int

text \<open>
  What a \<^verbatim>\<open>subprocess.run(..., check=True)\<close> did: it completed with exit status 0 (and
  some output), raised \<^verbatim>\<open>CalledProcessError\<close> on a non-zero exit status, or raised
  something else (for instance \<^verbatim>\<open>OSError\<close> when the program cannot be started).
\<close>

datatype 'a process = Completed 'a | CalledProcessError | Raised py_error

text \<open>
  \<open>query_ready_issues loads run\<close>: \<open>run\<close> is what the \<^verbatim>\<open>jit query ready --json\<close>
  process did, \<open>loads\<close> is \<^verbatim>\<open>json.loads\<close>. The value returned is whatever the response
  holds under \<^verbatim>\<open>"issues"\<close>, a list or not.
\<close>

definition query_ready_issues :: "(string \<Rightarrow> json option) \<Rightarrow> string process
    \<Rightarrow> (py_error + json) \<times> message list" where
  "query_ready_issues loads run =
     (case run of
        Completed stdout \<Rightarrow>
          (case loads stdout of
             Some data \<Rightarrow> (dict_get data ''issues'' (JArr []), [])
           | None \<Rightarrow> (Inr (JArr []), [QueryError]))
      | CalledProcessError \<Rightarrow> (Inr (JArr []), [QueryError])
      | Raised err \<Rightarrow> (Inl err, []))"

text \<open>
  \<open>claim_issue\<close>: the issue store is a state \<open>'w\<close> of its own, and \<open>run_claim\<close> says what
  the \<^verbatim>\<open>jit issue claim\<close> process does in a given state.
\<close>

definition claim_issue :: "('w \<Rightarrow> json \<Rightarrow> string \<Rightarrow> unit process \<times> 'w) \<Rightarrow> 'w \<Rightarrow> json \<Rightarrow> string
    \<Rightarrow> (py_error + bool) \<times> message list \<times> 'w" where
  "claim_issue run_claim w issue_id agent_id_full =
     (case run_claim w issue_id agent_id_full of
        (Completed _, w') \<Rightarrow> (Inr True, [], w')
      | (CalledProcessError, w') \<Rightarrow> (Inr False, [ClaimFailed], w')
      | (Raised err, w') \<Rightarrow> (Inl err, [], w'))"

definition get_available_agent :: "agent list \<Rightarrow> agent option" where
  "get_available_agent agents = find (\<lambda>a. current_load a < max_concurrent a) agents"

text \<open>
  \<^verbatim>\<open>agent.current_load += 1\<close> on the agent that \<open>get_available_agent\<close> returned: the
  first agent of the pool with spare capacity (the entries of the pool are distinct objects).
\<close>

fun record_assignment :: "agent list \<Rightarrow> agent list" where
  "record_assignment [] = []"
| "record_assignment (a # as) =
     (if current_load a < max_concurrent a
      then a\<lparr>current_load := current_load a + 1\<rparr> # as
      else a # record_assignment as)"

text \<open>\<^verbatim>\<open>priority_order.get(p, 4)\<close>: a list or a dictionary cannot be hashed.\<close>

fun priority_order :: "json \<Rightarrow> py_error + nat" where
  "priority_order (JStr s) =
     Inr (if s = ''critical'' then 0 else if s = ''high'' then 1
          else if s = ''normal'' then 2 else if s = ''low'' then 3 else 4)"
| "priority_order (JArr xs) = Inl TypeError"
| "priority_order (JObj kvs) = Inl TypeError"
| "priority_order _ = Inr 4"

text \<open>The sort key \<^verbatim>\<open>lambda i: priority_order.get(i.get("priority", "normal"), 4)\<close>.\<close>

definition sort_key_of :: "json \<Rightarrow> py_error + nat" where
  "sort_key_of i =
     (case dict_get i ''priority'' (JStr ''normal'') of
        Inl err \<Rightarrow> Inl err
      | Inr p \<Rightarrow> priority_order p)"

text \<open>\<^verbatim>\<open>list.sort(key=...)\<close> computes every key first, in list order, then sorts stably.\<close>

fun keyed :: "json list \<Rightarrow> py_error + (nat \<times> json) list" where
  "keyed [] = Inr []"
| "keyed (i # is) =
     (case sort_key_of i of
        Inl err \<Rightarrow> Inl err
      | Inr k \<Rightarrow> (case keyed is of Inl err \<Rightarrow> Inl err | Inr r \<Rightarrow> Inr ((k, i) # r)))"

definition rank_issues :: "json list \<Rightarrow> py_error + json list" where
  "rank_issues ready_issues =
     (case keyed ready_issues of
        Inl err \<Rightarrow> Inl err
      | Inr ks \<Rightarrow> Inr (map snd (sort_key fst ks)))"

text \<open>What a dispatch cycle leaves behind and returns.\<close>

record 'w cycle =
  pool :: "agent list"
  store :: 'w
  reported :: "message list"
  result :: "py_error + nat"

text \<open>The \<^verbatim>\<open>for issue in ready_issues\<close> loop, with the counter \<open>assignments\<close>.\<close>

fun dispatch_loop :: "('w \<Rightarrow> json \<Rightarrow> string \<Rightarrow> unit process \<times> 'w) \<Rightarrow> 'w \<Rightarrow> agent list
    \<Rightarrow> json list \<Rightarrow> nat \<Rightarrow> 'w cycle" where
  "dispatch_loop run_claim w agents [] assignments =
     \<lparr>pool = agents, store = w, reported = [], result = Inr assignments\<rparr>"
| "dispatch_loop run_claim w agents (issue # rest) assignments =
     (case get_available_agent agents of
        None \<Rightarrow> \<lparr>pool = agents, store = w, reported = [], result = Inr assignments\<rparr>
      | Some agent \<Rightarrow>
          (case subscript issue ''id'' of
             Inl err \<Rightarrow> \<lparr>pool = agents, store = w, reported = [], result = Inl err\<rparr>
           | Inr issue_id \<Rightarrow>
               (case claim_issue run_claim w issue_id (''agent:'' @ agent_id agent) of
                  (Inl err, ms, w') \<Rightarrow>
                    \<lparr>pool = agents, store = w', reported = ms, result = Inl err\<rparr>
                | (Inr claimed, ms, w') \<Rightarrow>
                    (let c = (if claimed
                              then dispatch_loop run_claim w' (record_assignment agents) rest
                                     (assignments + 1)
                              else dispatch_loop run_claim w' agents rest assignments)
                     in c\<lparr>reported := ms @ reported c\<rparr>))))"

text \<open>
  \<open>dispatch_cycle loads run_query run_claim w agents\<close>. After the query, a falsy value
  ends the cycle with 0; a value that is not a list has no \<^verbatim>\<open>sort\<close> method.
\<close>

definition dispatch_cycle :: "(string \<Rightarrow> json option) \<Rightarrow> string process
    \<Rightarrow> ('w \<Rightarrow> json \<Rightarrow> string \<Rightarrow> unit process \<times> 'w) \<Rightarrow> 'w \<Rightarrow> agent list \<Rightarrow> 'w cycle" where
  "dispatch_cycle loads run_query run_claim w agents =
     (case query_ready_issues loads run_query of
        (Inl err, ms) \<Rightarrow> \<lparr>pool = agents, store = w, reported = ms, result = Inl err\<rparr>
      | (Inr ready_issues, ms) \<Rightarrow>
          if \<not> truthy ready_issues
          then \<lparr>pool = agents, store = w, reported = ms, result = Inr 0\<rparr>
          else
            (case ready_issues of
               JArr issues \<Rightarrow>
                 (case rank_issues issues of
                    Inl err \<Rightarrow> \<lparr>pool = agents, store = w, reported = ms, result = Inl err\<rparr>
                  | Inr ranked \<Rightarrow>
                      (let c = dispatch_loop run_claim w agents ranked 0
                       in c\<lparr>reported := ms @ reported c\<rparr>))
             | _ \<Rightarrow> \<lparr>pool = agents, store = w, reported = ms, result = Inl AttributeError\<rparr>))"

text \<open>
  Timestamps are compared as the fixed-offset date-time strings they are: for two
  timestamps of the same format and offset the lexicographic order is the chronological one.
\<close>

definition ts_le :: "json \<Rightarrow> json \<Rightarrow> bool" where
  "ts_le a b = (case (a, b) of (JStr s, JStr t) \<Rightarrow> s \<le> t | _ \<Rightarrow> False)"

definition total_spare :: "agent list \<Rightarrow> int" where
  "total_spare agents = (\<Sum>a\<leftarrow>agents. max_concurrent a - current_load a)"

definition pool_ok :: "agent list \<Rightarrow> bool" where
  "pool_ok agents = list_all (\<lambda>a. 0 \<le> current_load a \<and> current_load a \<le> max_concurrent a) agents"

text \<open>The number of ready issues a query returned: the length of the list, if it is one.\<close>

definition ready_count :: "py_error + json \<Rightarrow> nat" where
  "ready_count q = (case q of Inr (JArr issues) \<Rightarrow> length issues | _ \<Rightarrow> 0)"

text \<open>The sort key of an issue for which the key can be computed.\<close>

definition rank :: "json \<Rightarrow> nat" where
  "rank i = (case sort_key_of i of Inr k \<Rightarrow> k | Inl _ \<Rightarrow> 4)"

text \<open>The values that can be the key of a dictionary lookup.\<close>

definition hashable :: "json \<Rightarrow> bool" where
  "hashable p = (case p of JArr _ \<Rightarrow> False | JObj _ \<Rightarrow> False | _ \<Rightarrow> True)"

text \<open>An issue store that refuses every claim (the process exits with a non-zero status).\<close>

definition refusing_store :: "unit \<Rightarrow> json \<Rightarrow> string \<Rightarrow> unit process \<times> unit" where
  "refusing_store w issue_id agent_id_full = (CalledProcessError, w)"

text \<open>No event of the log has \<^verbatim>\<open>NaN\<close> as its timestamp.\<close>

definition nan_free :: "json list \<Rightarrow> bool" where
  "nan_free events =
     list_all (\<lambda>e. dict_get e ''timestamp'' JNull \<noteq> Inr (JFloat NaN)) events"

section \<open>Properties\<close>

subsection \<open>Facts about Python values\<close>

lemma py_eq_refl: "a \<noteq> JFloat NaN \<Longrightarrow> py_eq a a"
proof (induction a)
  case (JObj kvs)
  have "map_of kvs k \<noteq> None" if "(k, w) \<in> set kvs" for k w
    using that by (simp add: map_of_eq_None_iff image_iff) force
  moreover have "v = JFloat NaN \<or> py_eq v v" if "(k, v) \<in> set kvs" for k v
    using that JObj.IH [of "(k, v)" v] by auto
  ultimately show ?case
    by (auto simp: list_all_iff split: option.splits)
next
  case (JArr xs)
  then have "x = JFloat NaN \<or> py_eq x x" if "x \<in> set xs" for x
    using that by blast
  then show ?case by (auto simp: list_all2_same)
qed auto

lemma py_eq_JStr [simp]: "py_eq a (JStr s) = (a = JStr s)"
  by (cases a) auto

subsection \<open>The timestamp pair is written as a whole\<close>



lemma migrate_dry_run_unwritten: "written (migrate_issue issue events True ft) = None"
  by (auto simp: migrate_issue_def returns_def raises_def Let_def
      split: sum.splits json.splits prod.splits)

lemma fix_dry_run_unwritten: "written (fix_issue_timestamps issue events True) = None"
  by (auto simp: fix_issue_timestamps_def returns_def raises_def Let_def
      split: sum.splits json.splits prod.splits list.splits)



subsection \<open>Auxiliary facts\<close>


lemma print_then_return_Inr:
  "print_then_return i b = Inr c \<Longrightarrow> c = b \<and> print_then_return i b' = Inr b'"
  by (auto simp: print_then_return_def split: sum.splits)

lemma field_of_update:
  "field_of (AList.update k v kvs) k' = (if k' = k then v else field_of kvs k')"
  by (simp add: field_of_def update_conv')

subsection \<open>Migrate and Repair, case by case\<close>

lemma migrate_not_obj:
  "\<forall>kvs. issue \<noteq> JObj kvs \<Longrightarrow> migrate_issue issue events d ft = raises AttributeError"
  by (cases issue) (simp_all add: migrate_issue_def)

lemma migrate_no_id:
  "\<not> truthy (field_of kvs ''id'') \<Longrightarrow>
   migrate_issue (JObj kvs) events d ft = returns [NoIdWarning] False"
  by (simp add: migrate_issue_def field_of_def)

lemma migrate_both:
  "truthy (field_of kvs ''id'') \<Longrightarrow>
   map_of kvs ''created_at'' \<noteq> None \<Longrightarrow> map_of kvs ''updated_at'' \<noteq> None \<Longrightarrow>
   migrate_issue (JObj kvs) events d ft = returns [] False"
  by (simp add: migrate_issue_def field_of_def)

lemma migrate_missing:
  "truthy (field_of kvs ''id'') \<Longrightarrow>
   map_of kvs ''created_at'' = None \<or> map_of kvs ''updated_at'' = None \<Longrightarrow>
   migrate_issue (JObj kvs) events d ft =
     (case find_timestamps_from_events (field_of kvs ''id'') events of
        Inl err \<Rightarrow> raises err
      | Inr (c, u) \<Rightarrow>
          (case (if \<not> truthy c then slice8 (field_of kvs ''id'') else Inr JNull) of
             Inl err \<Rightarrow> raises err
           | Inr _ \<Rightarrow>
              \<lparr>written = (if d then None else Some (JObj
                   (AList.update ''updated_at'' (if \<not> truthy u then JStr ft else u)
                     (AList.update ''created_at'' (if \<not> truthy c then JStr ft else c) kvs)))),
                warnings = [], ret = print_then_return (field_of kvs ''id'') True\<rparr>))"
  by (auto simp add: migrate_issue_def field_of_def Let_def split: sum.splits prod.splits)

lemma migrate_second_run:
  assumes "ret (migrate_issue issue events False ft) = Inr b"
  shows "migrate_issue
           (case written (migrate_issue issue events False ft) of Some i \<Rightarrow> i | None \<Rightarrow> issue)
           events dry_run ft'
         = returns (warnings (migrate_issue issue events False ft)) False"
proof (cases issue)
  case (JObj kvs)
  let ?id = "field_of kvs ''id''"
  show ?thesis
  proof (cases "truthy ?id")
    case False
    then show ?thesis by (simp add: JObj migrate_no_id returns_def)
  next
    case id: True
    show ?thesis
    proof (cases "map_of kvs ''created_at'' \<noteq> None \<and> map_of kvs ''updated_at'' \<noteq> None")
      case True
      then show ?thesis using id by (simp add: JObj migrate_both returns_def)
    next
      case False
      then have m: "map_of kvs ''created_at'' = None \<or> map_of kvs ''updated_at'' = None"
        by blast
      note eq = migrate_missing [OF id m, of events False ft]
      from assms obtain c u where f: "find_timestamps_from_events ?id events = Inr (c, u)"
        unfolding JObj eq
        by (cases "find_timestamps_from_events ?id events") (auto simp: raises_def)
      from assms obtain x where s: "(if \<not> truthy c then slice8 ?id else Inr JNull) = Inr x"
        unfolding JObj eq f
        by (cases "(if \<not> truthy c then slice8 ?id else Inr JNull)") (auto simp: raises_def)
      show ?thesis
        unfolding JObj eq f using s id
        by (simp add: migrate_both update_conv' field_of_update)
    qed
  qed
qed (use assms in \<open>simp_all add: migrate_issue_def raises_def\<close>)

lemma fix_not_obj: "\<forall>kvs. issue \<noteq> JObj kvs \<Longrightarrow> fix_issue_timestamps issue events d = raises AttributeError"
  by (cases issue) (simp_all add: fix_issue_timestamps_def)

lemma fix_no_id:
  "\<not> truthy (field_of kvs ''id'') \<Longrightarrow> fix_issue_timestamps (JObj kvs) events d = returns [NoIdWarning] False"
  by (simp add: fix_issue_timestamps_def field_of_def)

lemma fix_no_timestamps:
  "truthy (field_of kvs ''id'') \<Longrightarrow>
   \<not> truthy (field_of kvs ''created_at'') \<or> \<not> truthy (field_of kvs ''updated_at'') \<Longrightarrow>
   fix_issue_timestamps (JObj kvs) events d =
     \<lparr>written = None, warnings = [], ret = print_then_return (field_of kvs ''id'') False\<rparr>"
  by (auto simp add: fix_issue_timestamps_def field_of_def Let_def)

lemma fix_events_raise:
  "truthy (field_of kvs ''id'') \<Longrightarrow>
   truthy (field_of kvs ''created_at'') \<Longrightarrow> truthy (field_of kvs ''updated_at'') \<Longrightarrow>
   issue_events_of (field_of kvs ''id'') events = Inl err \<Longrightarrow>
   fix_issue_timestamps (JObj kvs) events d = raises err"
  by (simp add: fix_issue_timestamps_def field_of_def Let_def)

lemma fix_no_events:
  "truthy (field_of kvs ''id'') \<Longrightarrow>
   truthy (field_of kvs ''created_at'') \<Longrightarrow> truthy (field_of kvs ''updated_at'') \<Longrightarrow>
   issue_events_of (field_of kvs ''id'') events = Inr [] \<Longrightarrow>
   fix_issue_timestamps (JObj kvs) events d =
     \<lparr>written = None, warnings = [], ret = print_then_return (field_of kvs ''id'') False\<rparr>"
  by (simp add: fix_issue_timestamps_def field_of_def Let_def)

lemma fix_with_events:
  "truthy (field_of kvs ''id'') \<Longrightarrow>
   truthy (field_of kvs ''created_at'') \<Longrightarrow> truthy (field_of kvs ''updated_at'') \<Longrightarrow>
   issue_events_of (field_of kvs ''id'') events = Inr (e0 # es) \<Longrightarrow>
   dict_get e0 ''timestamp'' JNull = Inr t0 \<Longrightarrow>
   dict_get (last (e0 # es)) ''timestamp'' JNull = Inr tn \<Longrightarrow>
   fix_issue_timestamps (JObj kvs) events d =
     (if \<not> truthy t0 \<or> \<not> truthy tn
      then \<lparr>written = None, warnings = [], ret = print_then_return (field_of kvs ''id'') False\<rparr>
      else if py_eq (field_of kvs ''created_at'') t0 \<and> py_eq (field_of kvs ''updated_at'') tn
      then returns [] False
      else if d
      then \<lparr>written = None, warnings = [], ret = print_then_return (field_of kvs ''id'') True\<rparr>
      else \<lparr>written = Some (JObj (AList.update ''updated_at'' tn (AList.update ''created_at'' t0 kvs))),
            warnings = [], ret = print_then_return (field_of kvs ''id'') True\<rparr>)"
  by (simp add: fix_issue_timestamps_def field_of_def Let_def del: last.simps)

lemma issue_events_all_objects:
  "issue_events_of i events = Inr r \<Longrightarrow> e \<in> set r \<Longrightarrow> \<exists>kvs. e = JObj kvs"
proof (induction events arbitrary: r)
  case Nil
  then show ?case by simp
next
  case (Cons a events)
  then show ?case
    by (cases a) (auto split: sum.splits if_splits)
qed

lemma issue_events_subset:
  "issue_events_of i events = Inr r \<Longrightarrow> set r \<subseteq> set events"
proof (induction events arbitrary: r)
  case Nil
  then show ?case by simp
next
  case (Cons a events)
  then show ?case
    by (auto split: sum.splits if_splits)
qed

lemma fix_second_run:
  assumes "ret (fix_issue_timestamps issue events False) = Inr b" and nan: "nan_free events"
  shows "fix_issue_timestamps (case written (fix_issue_timestamps issue events False) of Some i \<Rightarrow> i | None \<Rightarrow> issue)
           events dry_run
         = returns (warnings (fix_issue_timestamps issue events False)) False"
proof (cases issue)
  case (JObj kvs)
  let ?id = "field_of kvs ''id''"
  show ?thesis
  proof (cases "truthy ?id")
    case False
    then show ?thesis by (simp add: JObj fix_no_id returns_def)
  next
    case id: True
    show ?thesis
    proof (cases "truthy (field_of kvs ''created_at'') \<and> truthy (field_of kvs ''updated_at'')")
      case False
      then have m: "\<not> truthy (field_of kvs ''created_at'') \<or> \<not> truthy (field_of kvs ''updated_at'')" by blast
      show ?thesis using assms unfolding JObj
        by (auto simp: fix_no_timestamps [OF id m] returns_def dest: print_then_return_Inr)
    next
      case True
      then have c: "truthy (field_of kvs ''created_at'')" and u: "truthy (field_of kvs ''updated_at'')"
        by simp_all
      show ?thesis
      proof (cases "issue_events_of ?id events")
        case (Inl err)
        then show ?thesis using assms unfolding JObj
          by (simp add: fix_events_raise [OF id c u] raises_def)
      next
        case (Inr evs)
        show ?thesis
        proof (cases evs)
          case Nil
          then show ?thesis using assms Inr unfolding JObj
            by (auto simp: fix_no_events [OF id c u] returns_def dest: print_then_return_Inr)
        next
          case (Cons e0 es)
          with Inr have ev: "issue_events_of ?id events = Inr (e0 # es)" by simp
          obtain k0 where k0: "e0 = JObj k0"
            using issue_events_all_objects [OF ev, of e0] by auto
          obtain kn where kn: "last (e0 # es) = JObj kn"
            using issue_events_all_objects [OF ev, of "last (e0 # es)"] last_in_set [of "e0 # es"] by blast
          have t0: "dict_get e0 ''timestamp'' JNull = Inr (field_of k0 ''timestamp'')"
            by (simp add: k0 field_of_def)
          have tn: "dict_get (last (e0 # es)) ''timestamp'' JNull = Inr (field_of kn ''timestamp'')"
            unfolding kn by (simp add: field_of_def)
          note eq = fix_with_events [OF id c u ev t0 tn]
          let ?kvs' = "AList.update ''updated_at'' (field_of kn ''timestamp'')
                         (AList.update ''created_at'' (field_of k0 ''timestamp'') kvs)"
          have id': "field_of ?kvs' ''id'' = ?id" by (simp add: field_of_update)
          have c': "field_of ?kvs' ''created_at'' = field_of k0 ''timestamp''" by (simp add: field_of_update)
          have u': "field_of ?kvs' ''updated_at'' = field_of kn ''timestamp''" by (simp add: field_of_update)
          show ?thesis
          proof (cases "\<not> truthy (field_of k0 ''timestamp'') \<or> \<not> truthy (field_of kn ''timestamp'')")
            case True
            then show ?thesis using assms unfolding JObj eq
              by (auto simp: eq returns_def dest: print_then_return_Inr)
          next
            case ts: False
            show ?thesis
            proof (cases "py_eq (field_of kvs ''created_at'') (field_of k0 ''timestamp'')
                          \<and> py_eq (field_of kvs ''updated_at'') (field_of kn ''timestamp'')")
              case True
              then show ?thesis using ts unfolding JObj eq
                by (simp add: eq returns_def)
            next
              case False
              have ev': "issue_events_of (field_of ?kvs' ''id'') events = Inr (e0 # es)"
                using ev id' by simp
              have "e0 \<in> set events" and "last (e0 # es) \<in> set events"
                using issue_events_subset [OF ev] last_in_set [of "e0 # es"] by auto
              then have "field_of k0 ''timestamp'' \<noteq> JFloat NaN"
                and "field_of kn ''timestamp'' \<noteq> JFloat NaN"
                using nan t0 tn by (auto simp: nan_free_def list_all_iff)
              then have refl: "py_eq (field_of k0 ''timestamp'') (field_of k0 ''timestamp'')"
                "py_eq (field_of kn ''timestamp'') (field_of kn ''timestamp'')"
                by (simp_all add: py_eq_refl)
              have 2: "fix_issue_timestamps (JObj ?kvs') events dry_run = returns [] False"
                using ts
                by (subst fix_with_events [of ?kvs', OF _ _ _ ev' t0 tn])
                   (simp_all add: id' c' u' id refl)
              show ?thesis using ts False 2 unfolding JObj eq by auto
            qed
          qed
        qed
      qed
    qed
  qed
qed (use assms in \<open>simp_all add: fix_issue_timestamps_def raises_def\<close>)

subsection \<open>Idempotence\<close>


lemma migrate_files_second:
  "migrate_files events False files n = (contents, ws, Inr m) \<Longrightarrow> length mtimes = length files \<Longrightarrow>
   migrate_files events dry_run (zip contents mtimes) k = (contents, ws, Inr k)"
proof (induction files arbitrary: n contents ws mtimes k)
  case Nil
  then show ?case by simp
next
  case (Cons f files)
  obtain issue mt where f: "f = (issue, mt)" by (cases f)
  obtain t ts where mtimes: "mtimes = t # ts" and len: "length ts = length files"
    using Cons.prems(2) by (cases mtimes) auto
  let ?r = "migrate_issue issue events False mt"
  let ?content = "case written ?r of Some i \<Rightarrow> i | None \<Rightarrow> issue"
  from Cons.prems(1) obtain b where b: "ret ?r = Inr b"
    unfolding f by (cases "ret ?r") (auto simp: Let_def)
  obtain rest ws' res where rec: "migrate_files events False files (if b then n + 1 else n) = (rest, ws', res)"
    by (cases "migrate_files events False files (if b then n + 1 else n)") 
  from Cons.prems(1) b rec have c: "contents = ?content # rest" and w: "ws = warnings ?r @ ws'"
    and r: "res = Inr m"
    unfolding f by (auto simp: Let_def)
  have snd: "migrate_issue ?content events dry_run t = returns (warnings ?r) False"
    by (rule migrate_second_run [OF b])
  have IH: "migrate_files events dry_run (zip rest ts) k = (rest, ws', Inr k)"
    using Cons.IH [OF _ len] rec r by blast
  show ?case
    unfolding c mtimes w using snd IH by (simp add: returns_def)
qed

lemma fix_files_second:
  "fix_files events False issues n = (contents, ws, Inr m) \<Longrightarrow> nan_free events \<Longrightarrow>
   fix_files events dry_run contents k = (contents, ws, Inr k)"
proof (induction issues arbitrary: n contents ws k)
  case Nil
  then show ?case by simp
next
  case (Cons issue issues)
  let ?r = "fix_issue_timestamps issue events False"
  let ?content = "case written ?r of Some i \<Rightarrow> i | None \<Rightarrow> issue"
  from Cons.prems(1) obtain b where b: "ret ?r = Inr b"
    by (cases "ret ?r") (auto simp: Let_def)
  obtain rest ws' res where rec: "fix_files events False issues (if b then n + 1 else n) = (rest, ws', res)"
    by (cases "fix_files events False issues (if b then n + 1 else n)") 
  from Cons.prems(1) b rec have c: "contents = ?content # rest" and w: "ws = warnings ?r @ ws'"
    and r: "res = Inr m"
    by (auto simp: Let_def)
  have snd: "fix_issue_timestamps ?content events dry_run = returns (warnings ?r) False"
    by (rule fix_second_run [OF b Cons.prems(2)])
  have IH: "fix_files events dry_run rest k = (rest, ws', Inr k)"
    using Cons.IH rec r Cons.prems(2) by blast
  show ?case
    unfolding c w using snd IH by (simp add: returns_def)
qed

lemma migrate_files_dry_run: "fst (migrate_files events True files k) = map fst files"
proof (induction files arbitrary: k)
  case Nil
  then show ?case by simp
next
  case (Cons f files)
  obtain issue mt where f: "f = (issue, mt)" by (cases f)
  let ?r = "migrate_issue issue events True mt"
  have w: "written ?r = None" by (rule migrate_dry_run_unwritten)
  show ?case
  proof (cases "ret ?r")
    case (Inl err)
    then show ?thesis unfolding f using w by (simp add: Let_def)
  next
    case (Inr b)
    obtain rest ws res where rec: "migrate_files events True files (if b then k + 1 else k) = (rest, ws, res)"
      by (cases "migrate_files events True files (if b then k + 1 else k)")
    from Cons.IH [of "if b then k + 1 else k"] rec have "rest = map fst files" by simp
    then show ?thesis unfolding f using w Inr rec by (simp add: Let_def)
  qed
qed

lemma fix_files_dry_run: "fst (fix_files events True issues k) = issues"
proof (induction issues arbitrary: k)
  case Nil
  then show ?case by simp
next
  case (Cons issue issues)
  let ?r = "fix_issue_timestamps issue events True"
  have w: "written ?r = None" by (rule fix_dry_run_unwritten)
  show ?case
  proof (cases "ret ?r")
    case (Inl err)
    then show ?thesis using w by (simp add: Let_def)
  next
    case (Inr b)
    obtain rest ws res where rec: "fix_files events True issues (if b then k + 1 else k) = (rest, ws, res)"
      by (cases "fix_files events True issues (if b then k + 1 else k)")
    from Cons.IH [of "if b then k + 1 else k"] rec have "rest = issues" by simp
    then show ?thesis using w Inr rec by (simp add: Let_def)
  qed
qed

text \<open>
  Claim C7, as the code has it. If a live Migrate pass over the issue files ends normally
  (no exception ended it), a second pass (live or dry, whatever the files' modification
  times have become) over the files as the first pass left them writes nothing and counts
  0 modified issues: every issue with an identifier now carries both fields, and
  \<open>migrate_issue\<close> returns at once for it. If a live Repair pass ends normally and no
  event has \<^verbatim>\<open>NaN\<close> as its timestamp, a second pass counts 0 as well: the stored values
  now equal the computed ones. A dry pass, first or second, leaves every file as it is.
\<close>

theorem C7_second_run_after_completed_pass:
  "(migrate_files events False files 0 = (contents, ws, Inr n) \<and> length mtimes = length files
      \<longrightarrow> migrate_files events dry_run (zip contents mtimes) 0 = (contents, ws, Inr 0))
   \<and> (fix_files events False issues 0 = (contents', ws', Inr n') \<and> nan_free events
      \<longrightarrow> fix_files events dry_run contents' 0 = (contents', ws', Inr 0))
   \<and> fst (migrate_files events True files k) = map fst files
   \<and> fst (fix_files events True issues k) = issues"
  using migrate_files_second [of events files 0 contents ws n mtimes dry_run 0]
    fix_files_second [of events issues 0 contents' ws' n' dry_run 0]
    migrate_files_dry_run [of events files k] fix_files_dry_run [of events issues k]
  by blast

theorem C7_second_run_after_completed_pass_witness:
  "migrate_files
     [JObj [(''issue_id'', JStr ''X''), (''event_type'', JStr ''issue_created''),
            (''timestamp'', JStr ''2024-01-01T00:00:00+00:00'')],
      JObj [(''issue_id'', JStr ''X''), (''event_type'', JStr ''issue_claimed''),
            (''timestamp'', JStr ''2024-02-01T00:00:00+00:00'')]]
     False
     [(JObj [(''id'', JStr ''X'')], ''2025-06-01T00:00:00+00:00''),
      (JObj [(''title'', JStr ''no id'')], ''2025-06-01T00:00:00+00:00'')]
     0
   = ([JObj [(''id'', JStr ''X''), (''created_at'', JStr ''2024-01-01T00:00:00+00:00''),
            (''updated_at'', JStr ''2024-02-01T00:00:00+00:00'')],
      JObj [(''title'', JStr ''no id'')]],
      [NoIdWarning], Inr 1)
   \<and> migrate_files
     [JObj [(''issue_id'', JStr ''X''), (''event_type'', JStr ''issue_created''),
            (''timestamp'', JStr ''2024-01-01T00:00:00+00:00'')],
      JObj [(''issue_id'', JStr ''X''), (''event_type'', JStr ''issue_claimed''),
            (''timestamp'', JStr ''2024-02-01T00:00:00+00:00'')]]
     True
     (zip [JObj [(''id'', JStr ''X''), (''created_at'', JStr ''2024-01-01T00:00:00+00:00''),
            (''updated_at'', JStr ''2024-02-01T00:00:00+00:00'')],
      JObj [(''title'', JStr ''no id'')]]
       [''2025-07-01T00:00:00+00:00'', ''2025-06-01T00:00:00+00:00''])
     0
   = ([JObj [(''id'', JStr ''X''), (''created_at'', JStr ''2024-01-01T00:00:00+00:00''),
            (''updated_at'', JStr ''2024-02-01T00:00:00+00:00'')],
      JObj [(''title'', JStr ''no id'')]],
      [NoIdWarning], Inr 0)
   \<and> nan_free
     [JObj [(''issue_id'', JStr ''X''), (''event_type'', JStr ''issue_created''),
            (''timestamp'', JStr ''2024-01-01T00:00:00+00:00'')],
      JObj [(''issue_id'', JStr ''X''), (''event_type'', JStr ''issue_claimed''),
            (''timestamp'', JStr ''2024-02-01T00:00:00+00:00'')]]
   \<and> fix_files
     [JObj [(''issue_id'', JStr ''X''), (''event_type'', JStr ''issue_created''),
            (''timestamp'', JStr ''2024-01-01T00:00:00+00:00'')],
      JObj [(''issue_id'', JStr ''X''), (''event_type'', JStr ''issue_claimed''),
            (''timestamp'', JStr ''2024-02-01T00:00:00+00:00'')]]
     False
     [JObj [(''id'', JStr ''X''), (''created_at'', JStr ''2025-06-01T00:00:00+00:00''),
            (''updated_at'', JStr ''2024-02-01T00:00:00+00:00'')],
      JObj [(''title'', JStr ''no id'')]]
     0
   = ([JObj [(''id'', JStr ''X''), (''created_at'', JStr ''2024-01-01T00:00:00+00:00''),
            (''updated_at'', JStr ''2024-02-01T00:00:00+00:00'')],
      JObj [(''title'', JStr ''no id'')]],
      [NoIdWarning], Inr 1)
   \<and> fix_files
     [JObj [(''issue_id'', JStr ''X''), (''event_type'', JStr ''issue_created''),
            (''timestamp'', JStr ''2024-01-01T00:00:00+00:00'')],
      JObj [(''issue_id'', JStr ''X''), (''event_type'', JStr ''issue_claimed''),
            (''timestamp'', JStr ''2024-02-01T00:00:00+00:00'')]]
     True
     [JObj [(''id'', JStr ''X''), (''created_at'', JStr ''2024-01-01T00:00:00+00:00''),
            (''updated_at'', JStr ''2024-02-01T00:00:00+00:00'')],
      JObj [(''title'', JStr ''no id'')]]
     0
   = ([JObj [(''id'', JStr ''X''), (''created_at'', JStr ''2024-01-01T00:00:00+00:00''),
            (''updated_at'', JStr ''2024-02-01T00:00:00+00:00'')],
      JObj [(''title'', JStr ''no id'')]],
      [NoIdWarning], Inr 0)"
proof -
  have m: "migrate_files
     [JObj [(''issue_id'', JStr ''X''), (''event_type'', JStr ''issue_created''),
            (''timestamp'', JStr ''2024-01-01T00:00:00+00:00'')],
      JObj [(''issue_id'', JStr ''X''), (''event_type'', JStr ''issue_claimed''),
            (''timestamp'', JStr ''2024-02-01T00:00:00+00:00'')]]
     False
     [(JObj [(''id'', JStr ''X'')], ''2025-06-01T00:00:00+00:00''),
      (JObj [(''title'', JStr ''no id'')], ''2025-06-01T00:00:00+00:00'')]
     0
   = ([JObj [(''id'', JStr ''X''), (''created_at'', JStr ''2024-01-01T00:00:00+00:00''),
            (''updated_at'', JStr ''2024-02-01T00:00:00+00:00'')],
      JObj [(''title'', JStr ''no id'')]],
      [NoIdWarning], Inr 1)"
    by (simp add: migrate_issue_def find_timestamps_from_events_def print_then_return_def
        returns_def)
  have f: "fix_files
     [JObj [(''issue_id'', JStr ''X''), (''event_type'', JStr ''issue_created''),
            (''timestamp'', JStr ''2024-01-01T00:00:00+00:00'')],
      JObj [(''issue_id'', JStr ''X''), (''event_type'', JStr ''issue_claimed''),
            (''timestamp'', JStr ''2024-02-01T00:00:00+00:00'')]]
     False
     [JObj [(''id'', JStr ''X''), (''created_at'', JStr ''2025-06-01T00:00:00+00:00''),
            (''updated_at'', JStr ''2024-02-01T00:00:00+00:00'')],
      JObj [(''title'', JStr ''no id'')]]
     0
   = ([JObj [(''id'', JStr ''X''), (''created_at'', JStr ''2024-01-01T00:00:00+00:00''),
            (''updated_at'', JStr ''2024-02-01T00:00:00+00:00'')],
      JObj [(''title'', JStr ''no id'')]],
      [NoIdWarning], Inr 1)"
    by (simp add: fix_issue_timestamps_def print_then_return_def returns_def)
  have nf: "nan_free
     [JObj [(''issue_id'', JStr ''X''), (''event_type'', JStr ''issue_created''),
            (''timestamp'', JStr ''2024-01-01T00:00:00+00:00'')],
      JObj [(''issue_id'', JStr ''X''), (''event_type'', JStr ''issue_claimed''),
            (''timestamp'', JStr ''2024-02-01T00:00:00+00:00'')]]"
    by (simp add: nan_free_def)
  show ?thesis
    using m f nf C7_second_run_after_completed_pass
      [of "[JObj [(''issue_id'', JStr ''X''), (''event_type'', JStr ''issue_created''),
            (''timestamp'', JStr ''2024-01-01T00:00:00+00:00'')],
      JObj [(''issue_id'', JStr ''X''), (''event_type'', JStr ''issue_claimed''),
            (''timestamp'', JStr ''2024-02-01T00:00:00+00:00'')]]"
          "[(JObj [(''id'', JStr ''X'')], ''2025-06-01T00:00:00+00:00''),
      (JObj [(''title'', JStr ''no id'')], ''2025-06-01T00:00:00+00:00'')]"
          "[JObj [(''id'', JStr ''X''), (''created_at'', JStr ''2024-01-01T00:00:00+00:00''),
            (''updated_at'', JStr ''2024-02-01T00:00:00+00:00'')],
      JObj [(''title'', JStr ''no id'')]]"
          "[NoIdWarning]" 1
          "[''2025-07-01T00:00:00+00:00'', ''2025-06-01T00:00:00+00:00'']"
          True
          "[JObj [(''id'', JStr ''X''), (''created_at'', JStr ''2025-06-01T00:00:00+00:00''),
            (''updated_at'', JStr ''2024-02-01T00:00:00+00:00'')],
      JObj [(''title'', JStr ''no id'')]]"
          "[JObj [(''id'', JStr ''X''), (''created_at'', JStr ''2024-01-01T00:00:00+00:00''),
            (''updated_at'', JStr ''2024-02-01T00:00:00+00:00'')],
      JObj [(''title'', JStr ''no id'')]]"
          "[NoIdWarning]" 1]
    by simp
qed

text \<open>
  The claim as stated fails in two ways. A Migrate pass that an exception ended is not
  repeated without change: the issue with the identifier 5 is written and the progress
  message then raises on \<^verbatim>\<open>5[:8]\<close>, so that the issue after it is only reached, and
  modified, by the second run. And Repair does not short-circuit on a \<^verbatim>\<open>NaN\<close> timestamp,
  which differs from itself: the second run rewrites the record and counts it again.
\<close>

theorem C7_second_run_modifies_counterexample:
  "migrate_files
     [JObj [(''issue_id'', JNum 5), (''event_type'', JStr ''issue_created''),
            (''timestamp'', JStr ''2024-01-01T00:00:00+00:00'')]]
     False
     [(JObj [(''id'', JNum 5)], ''2025-06-01T00:00:00+00:00''),
      (JObj [(''id'', JStr ''Y'')], ''2025-06-01T00:00:00+00:00'')]
     0
   = ([JObj [(''id'', JNum 5), (''created_at'', JStr ''2024-01-01T00:00:00+00:00''),
            (''updated_at'', JStr ''2024-01-01T00:00:00+00:00'')],
       JObj [(''id'', JStr ''Y'')]],
      [], Inl TypeError)
   \<and> migrate_files
     [JObj [(''issue_id'', JNum 5), (''event_type'', JStr ''issue_created''),
            (''timestamp'', JStr ''2024-01-01T00:00:00+00:00'')]]
     False
     [(JObj [(''id'', JNum 5), (''created_at'', JStr ''2024-01-01T00:00:00+00:00''),
            (''updated_at'', JStr ''2024-01-01T00:00:00+00:00'')], ''2025-07-01T00:00:00+00:00''),
      (JObj [(''id'', JStr ''Y'')], ''2025-07-01T00:00:00+00:00'')]
     0
   = ([JObj [(''id'', JNum 5), (''created_at'', JStr ''2024-01-01T00:00:00+00:00''),
            (''updated_at'', JStr ''2024-01-01T00:00:00+00:00'')],
       JObj [(''id'', JStr ''Y''), (''created_at'', JStr ''2025-07-01T00:00:00+00:00''),
            (''updated_at'', JStr ''2025-07-01T00:00:00+00:00'')]],
      [], Inr 1)
   \<and> fix_files
     [JObj [(''issue_id'', JStr ''X''), (''timestamp'', JFloat NaN)]]
     False
     [JObj [(''id'', JStr ''X''), (''created_at'', JStr ''2024-01-01T00:00:00+00:00''),
            (''updated_at'', JStr ''2024-01-01T00:00:00+00:00'')]]
     0
   = ([JObj [(''id'', JStr ''X''), (''created_at'', JFloat NaN),
            (''updated_at'', JFloat NaN)]],
      [], Inr 1)
   \<and> fix_files
     [JObj [(''issue_id'', JStr ''X''), (''timestamp'', JFloat NaN)]]
     False
     [JObj [(''id'', JStr ''X''), (''created_at'', JFloat NaN),
            (''updated_at'', JFloat NaN)]]
     0
   = ([JObj [(''id'', JStr ''X''), (''created_at'', JFloat NaN),
            (''updated_at'', JFloat NaN)]],
      [], Inr 1)"
  by (simp add: migrate_issue_def find_timestamps_from_events_def fix_issue_timestamps_def
      print_then_return_def returns_def Let_def)

subsection \<open>The dispatch cycle\<close>


lemma total_spare_nonneg: "pool_ok agents \<Longrightarrow> 0 \<le> total_spare agents"
  by (induction agents) (auto simp: pool_ok_def total_spare_def)

lemma record_assignment_spare:
  "get_available_agent agents = Some a \<Longrightarrow>
   total_spare (record_assignment agents) = total_spare agents - 1"
  by (induction agents) (auto simp: get_available_agent_def total_spare_def split: if_splits)

lemma record_assignment_ok: "pool_ok agents \<Longrightarrow> pool_ok (record_assignment agents)"
  by (induction agents) (auto simp: pool_ok_def)

lemma dispatch_loop_bounds:
  "pool_ok agents \<Longrightarrow>
   pool_ok (pool (dispatch_loop rc w agents issues k)) \<and>
   (\<forall>n. result (dispatch_loop rc w agents issues k) = Inr n \<longrightarrow>
        k \<le> n \<and> n - k \<le> length issues \<and> int (n - k) \<le> total_spare agents)"
proof (induction issues arbitrary: w agents k)
  case Nil
  then show ?case by (simp add: total_spare_nonneg)
next
  case (Cons issue rest)
  note ok = Cons.prems
  show ?case
  proof (cases "get_available_agent agents")
    case None
    then show ?thesis using ok by (simp add: total_spare_nonneg)
  next
    case (Some agent)
    show ?thesis
    proof (cases "subscript issue ''id''")
      case (Inl err)
      then show ?thesis using ok Some by simp
    next
      case (Inr issue_id)
      obtain r ms w' where cl: "claim_issue rc w issue_id (''agent:'' @ agent_id agent) = (r, ms, w')"
        by (cases "claim_issue rc w issue_id (''agent:'' @ agent_id agent)")
      show ?thesis
      proof (cases r)
        case (Inl err)
        then show ?thesis using ok Some Inr cl by simp
      next
        case r: (Inr claimed)
        show ?thesis
        proof (cases claimed)
          case True
          have ok': "pool_ok (record_assignment agents)" using ok by (rule record_assignment_ok)
          from Cons.IH [OF ok', of w' "k + 1"] record_assignment_spare [OF Some]
          show ?thesis using Some Inr cl r True by (auto simp: Let_def)
        next
          case False
          from Cons.IH [OF ok, of w' k]
          show ?thesis using Some Inr cl r False by (auto simp: Let_def)
        qed
      qed
    qed
  qed
qed

lemma keyed_length: "keyed xs = Inr ks \<Longrightarrow> length ks = length xs"
  by (induction xs arbitrary: ks) (auto split: sum.splits)

lemma rank_issues_length: "rank_issues xs = Inr ys \<Longrightarrow> length ys = length xs"
  by (auto simp: rank_issues_def keyed_length split: sum.splits)

text \<open>
  Claim C6. Starting a dispatch cycle from a pool in which every agent has
  \<open>0 \<le> current_load \<le> max_concurrent\<close>, every agent satisfies this after the cycle as
  well (also when the cycle ends with an exception), and the assignment count the cycle
  returns is at most the number of ready issues the query returned and at most the total
  spare capacity of the pool at the start of the cycle.
\<close>

theorem C6_assignments_bounded:
  assumes "pool_ok agents"
  shows "pool_ok (pool (dispatch_cycle loads run_query run_claim w agents)) \<and>
         (result (dispatch_cycle loads run_query run_claim w agents) = Inr n \<longrightarrow>
            n \<le> ready_count (fst (query_ready_issues loads run_query))
            \<and> int n \<le> total_spare agents)"
proof -
  obtain q ms where q: "query_ready_issues loads run_query = (q, ms)"
    by (cases "query_ready_issues loads run_query")
  let ?c = "dispatch_cycle loads run_query run_claim w agents"
  have "pool_ok (pool ?c) \<and> (result ?c = Inr n \<longrightarrow>
         n \<le> ready_count q \<and> int n \<le> total_spare agents)"
  proof (cases q)
    case (Inl err)
    then show ?thesis using assms q by (simp add: dispatch_cycle_def)
  next
    case (Inr ready)
    show ?thesis
    proof (cases "truthy ready")
      case False
      then show ?thesis using assms q Inr by (simp add: dispatch_cycle_def total_spare_nonneg)
    next
      case True
      show ?thesis
      proof (cases ready)
        case (JArr issues)
        show ?thesis
        proof (cases "rank_issues issues")
          case (Inl err)
          then show ?thesis using assms q Inr JArr True by (simp add: dispatch_cycle_def)
        next
          case rk: (Inr ranked)
          from dispatch_loop_bounds [OF assms, of run_claim w ranked 0] rank_issues_length [OF rk]
          show ?thesis using q Inr JArr True rk
            by (auto simp: dispatch_cycle_def Let_def ready_count_def)
        qed
      qed (use assms q Inr True in \<open>simp_all add: dispatch_cycle_def\<close>)
    qed
  qed
  then show ?thesis using q by simp
qed

theorem C6_assignments_bounded_witness:
  "pool_ok [\<lparr>agent_id = ''A'', max_concurrent = 1, current_load = 0\<rparr>,
            \<lparr>agent_id = ''B'', max_concurrent = 1, current_load = 1\<rparr>]
   \<and> result (dispatch_cycle
        (\<lambda>s. Some (JObj [(''issues'', JArr
           [JObj [(''id'', JStr ''i1''), (''priority'', JStr ''high'')],
            JObj [(''id'', JStr ''i2''), (''priority'', JStr ''critical'')]])]))
        (Completed ''response'')
        (\<lambda>w i a. (Completed (), w @ [(i, a)]))
        []
        [\<lparr>agent_id = ''A'', max_concurrent = 1, current_load = 0\<rparr>,
         \<lparr>agent_id = ''B'', max_concurrent = 1, current_load = 1\<rparr>]) = Inr 1
   \<and> store (dispatch_cycle
        (\<lambda>s. Some (JObj [(''issues'', JArr
           [JObj [(''id'', JStr ''i1''), (''priority'', JStr ''high'')],
            JObj [(''id'', JStr ''i2''), (''priority'', JStr ''critical'')]])]))
        (Completed ''response'')
        (\<lambda>w i a. (Completed (), w @ [(i, a)]))
        []
        [\<lparr>agent_id = ''A'', max_concurrent = 1, current_load = 0\<rparr>,
         \<lparr>agent_id = ''B'', max_concurrent = 1, current_load = 1\<rparr>]) = [(JStr ''i2'', ''agent:A'')]
   \<and> pool_ok (pool (dispatch_cycle
        (\<lambda>s. Some (JObj [(''issues'', JArr
           [JObj [(''id'', JStr ''i1''), (''priority'', JStr ''high'')],
            JObj [(''id'', JStr ''i2''), (''priority'', JStr ''critical'')]])]))
        (Completed ''response'')
        (\<lambda>w i a. (Completed (), w @ [(i, a)]))
        []
        [\<lparr>agent_id = ''A'', max_concurrent = 1, current_load = 0\<rparr>,
         \<lparr>agent_id = ''B'', max_concurrent = 1, current_load = 1\<rparr>]))
   \<and> (1::nat) \<le> ready_count (fst (query_ready_issues
        (\<lambda>s. Some (JObj [(''issues'', JArr
           [JObj [(''id'', JStr ''i1''), (''priority'', JStr ''high'')],
            JObj [(''id'', JStr ''i2''), (''priority'', JStr ''critical'')]])]))
        (Completed ''response'')))
   \<and> int 1 \<le> total_spare
        [\<lparr>agent_id = ''A'', max_concurrent = 1, current_load = 0\<rparr>,
         \<lparr>agent_id = ''B'', max_concurrent = 1, current_load = 1\<rparr>]"
proof -
  have ok: "pool_ok [\<lparr>agent_id = ''A'', max_concurrent = 1, current_load = 0\<rparr>,
                     \<lparr>agent_id = ''B'', max_concurrent = 1, current_load = 1\<rparr>]"
    by (simp add: pool_ok_def)
  have run: "dispatch_cycle
        (\<lambda>s. Some (JObj [(''issues'', JArr
           [JObj [(''id'', JStr ''i1''), (''priority'', JStr ''high'')],
            JObj [(''id'', JStr ''i2''), (''priority'', JStr ''critical'')]])]))
        (Completed ''response'')
        (\<lambda>w i a. (Completed (), w @ [(i, a)]))
        []
        [\<lparr>agent_id = ''A'', max_concurrent = 1, current_load = 0\<rparr>,
         \<lparr>agent_id = ''B'', max_concurrent = 1, current_load = 1\<rparr>]
     = \<lparr>pool = [\<lparr>agent_id = ''A'', max_concurrent = 1, current_load = 1\<rparr>,
                 \<lparr>agent_id = ''B'', max_concurrent = 1, current_load = 1\<rparr>],
         store = [(JStr ''i2'', ''agent:A'')], reported = [], result = Inr 1\<rparr>"
    by (simp add: dispatch_cycle_def query_ready_issues_def rank_issues_def sort_key_of_def
        get_available_agent_def claim_issue_def)
  show ?thesis
    using ok run C6_assignments_bounded [OF ok, of
        "\<lambda>s. Some (JObj [(''issues'', JArr
           [JObj [(''id'', JStr ''i1''), (''priority'', JStr ''high'')],
            JObj [(''id'', JStr ''i2''), (''priority'', JStr ''critical'')]])])"
        "Completed ''response''"
        "\<lambda>w i a. (Completed (), w @ [(i, a)])"
        "[]" 1]
    by simp
qed

subsection \<open>Priority ranking\<close>

lemma keyed_spec:
  "keyed issues = Inr ks \<Longrightarrow> map snd ks = issues \<and> (\<forall>x \<in> set ks. rank (snd x) = fst x)"
proof (induction issues arbitrary: ks)
  case Nil
  then show ?case by simp
next
  case (Cons i issues)
  then show ?case
    by (auto simp: rank_def split: sum.splits)
qed

lemma rank_issues_sorted_stable:
  assumes "rank_issues issues = Inr ranked"
  shows "sorted (map rank ranked)" and "mset ranked = mset issues"
    and "filter (\<lambda>i. rank i = k) ranked = filter (\<lambda>i. rank i = k) issues"
proof -
  from assms obtain ks where ks: "keyed issues = Inr ks"
    and ranked: "ranked = map snd (sort_key fst ks)"
    by (auto simp: rank_issues_def split: sum.splits)
  from keyed_spec [OF ks] have iss: "map snd ks = issues"
    and key: "\<And>x. x \<in> set ks \<Longrightarrow> rank (snd x) = fst x" by auto
  have "map rank ranked = map fst (sort_key fst ks)"
    unfolding ranked by (simp add: key)
  then show "sorted (map rank ranked)" by simp
  have "mset ranked = image_mset snd (mset ks)"
    unfolding ranked by simp
  then show "mset ranked = mset issues" using iss by (metis mset_map)
  have "filter (\<lambda>i. rank i = k) ranked = map snd (filter (\<lambda>x. fst x = k) (sort_key fst ks))"
    unfolding ranked filter_map by (rule arg_cong [where f = "map snd"], rule filter_cong) (auto simp: key)
  also have "\<dots> = map snd (filter (\<lambda>x. fst x = k) ks)"
    by (simp add: sort_key_stable)
  also have "\<dots> = filter (\<lambda>i. rank i = k) (map snd ks)"
    unfolding filter_map by (rule arg_cong [where f = "map snd"], rule filter_cong) (auto simp: key)
  finally show "filter (\<lambda>i. rank i = k) ranked = filter (\<lambda>i. rank i = k) issues"
    using iss by simp
qed

lemma sort_key_of_values:
  "sort_key_of (JObj kvs) =
     (case map_of kvs ''priority'' of
        None \<Rightarrow> Inr 2
      | Some p \<Rightarrow> priority_order p)"
  by (simp add: sort_key_of_def split: option.splits)

lemma priority_order_unknown:
  "hashable p \<Longrightarrow> p \<noteq> JStr ''critical'' \<Longrightarrow> p \<noteq> JStr ''high'' \<Longrightarrow> p \<noteq> JStr ''normal'' \<Longrightarrow> p \<noteq> JStr ''low''
   \<Longrightarrow> priority_order p = Inr 4"
  by (cases p) (auto simp: hashable_def)

lemma rank_issues_total:
  "\<forall>i \<in> set issues. \<exists>k. sort_key_of i = Inr k \<Longrightarrow> \<exists>ranked. rank_issues issues = Inr ranked"
proof -
  have "\<forall>i \<in> set issues. \<exists>k. sort_key_of i = Inr k \<Longrightarrow> \<exists>ks. keyed issues = Inr ks"
    by (induction issues) auto
  then show "\<forall>i \<in> set issues. \<exists>k. sort_key_of i = Inr k \<Longrightarrow> \<exists>ranked. rank_issues issues = Inr ranked"
    by (auto simp: rank_issues_def)
qed

text \<open>
  Claim C2, as the code has it. The ranking sorts the ready issues stably by the key
  critical = 0, high = 1, normal = 2, low = 3: the result is a permutation of the input,
  its keys are in ascending order, and issues of one key keep their order. An issue
  without a \<^verbatim>\<open>priority\<close> field gets the key of \<^verbatim>\<open>normal\<close>, 2, since the code reads the
  field with the default \<^verbatim>\<open>"normal"\<close>. An issue whose \<^verbatim>\<open>priority\<close> is present but is none
  of the four names (another string, \<^verbatim>\<open>null\<close>, a boolean, a number) gets the key 4 and
  sorts after all four known ranks. The ranking returns whenever every key can be computed.
\<close>

theorem C2_ranking_absent_priority_is_normal:
  "(rank_issues issues = Inr ranked \<longrightarrow>
      sorted (map rank ranked) \<and> mset ranked = mset issues
      \<and> filter (\<lambda>i. rank i = k) ranked = filter (\<lambda>i. rank i = k) issues)
   \<and> ((\<forall>i \<in> set issues. \<exists>k. sort_key_of i = Inr k) \<longrightarrow>
        (\<exists>ranked. rank_issues issues = Inr ranked))
   \<and> (map_of kvs ''priority'' = None \<longrightarrow> sort_key_of (JObj kvs) = Inr 2)
   \<and> (map_of kvs ''priority'' = Some p \<longrightarrow> sort_key_of (JObj kvs) = priority_order p)
   \<and> priority_order (JStr ''critical'') = Inr 0
   \<and> priority_order (JStr ''high'') = Inr 1
   \<and> priority_order (JStr ''normal'') = Inr 2
   \<and> priority_order (JStr ''low'') = Inr 3
   \<and> (hashable p \<and> p \<noteq> JStr ''critical'' \<and> p \<noteq> JStr ''high'' \<and> p \<noteq> JStr ''normal''
        \<and> p \<noteq> JStr ''low'' \<longrightarrow> priority_order p = Inr 4)"
  using rank_issues_sorted_stable(1,2) [of issues ranked]
    rank_issues_sorted_stable(3) [of issues ranked k] rank_issues_total [of issues]
    priority_order_unknown [of p]
  by (simp add: sort_key_of_values)

theorem C2_ranking_absent_priority_is_normal_witness:
  "rank_issues
     [JObj [(''id'', JStr ''a''), (''priority'', JStr ''low'')],
      JObj [(''id'', JStr ''b'')],
      JObj [(''id'', JStr ''c''), (''priority'', JStr ''urgent'')],
      JObj [(''id'', JStr ''d''), (''priority'', JStr ''critical'')]]
   = Inr
     [JObj [(''id'', JStr ''d''), (''priority'', JStr ''critical'')],
      JObj [(''id'', JStr ''b'')],
      JObj [(''id'', JStr ''a''), (''priority'', JStr ''low'')],
      JObj [(''id'', JStr ''c''), (''priority'', JStr ''urgent'')]]
   \<and> sorted (map rank
     [JObj [(''id'', JStr ''d''), (''priority'', JStr ''critical'')],
      JObj [(''id'', JStr ''b'')],
      JObj [(''id'', JStr ''a''), (''priority'', JStr ''low'')],
      JObj [(''id'', JStr ''c''), (''priority'', JStr ''urgent'')]])
   \<and> mset
     [JObj [(''id'', JStr ''d''), (''priority'', JStr ''critical'')],
      JObj [(''id'', JStr ''b'')],
      JObj [(''id'', JStr ''a''), (''priority'', JStr ''low'')],
      JObj [(''id'', JStr ''c''), (''priority'', JStr ''urgent'')]]
     = mset
     [JObj [(''id'', JStr ''a''), (''priority'', JStr ''low'')],
      JObj [(''id'', JStr ''b'')],
      JObj [(''id'', JStr ''c''), (''priority'', JStr ''urgent'')],
      JObj [(''id'', JStr ''d''), (''priority'', JStr ''critical'')]]
   \<and> filter (\<lambda>i. rank i = 2)
     [JObj [(''id'', JStr ''d''), (''priority'', JStr ''critical'')],
      JObj [(''id'', JStr ''b'')],
      JObj [(''id'', JStr ''a''), (''priority'', JStr ''low'')],
      JObj [(''id'', JStr ''c''), (''priority'', JStr ''urgent'')]]
     = filter (\<lambda>i. rank i = 2)
     [JObj [(''id'', JStr ''a''), (''priority'', JStr ''low'')],
      JObj [(''id'', JStr ''b'')],
      JObj [(''id'', JStr ''c''), (''priority'', JStr ''urgent'')],
      JObj [(''id'', JStr ''d''), (''priority'', JStr ''critical'')]]
   \<and> sort_key_of (JObj [(''id'', JStr ''b'')]) = Inr 2
   \<and> sort_key_of (JObj [(''id'', JStr ''c''), (''priority'', JStr ''urgent'')]) = priority_order (JStr ''urgent'')
   \<and> priority_order (JStr ''urgent'') = Inr 4"
proof -
  have r: "rank_issues
     [JObj [(''id'', JStr ''a''), (''priority'', JStr ''low'')],
      JObj [(''id'', JStr ''b'')],
      JObj [(''id'', JStr ''c''), (''priority'', JStr ''urgent'')],
      JObj [(''id'', JStr ''d''), (''priority'', JStr ''critical'')]]
   = Inr
     [JObj [(''id'', JStr ''d''), (''priority'', JStr ''critical'')],
      JObj [(''id'', JStr ''b'')],
      JObj [(''id'', JStr ''a''), (''priority'', JStr ''low'')],
      JObj [(''id'', JStr ''c''), (''priority'', JStr ''urgent'')]]"
    by (simp add: rank_issues_def sort_key_of_def)
  show ?thesis
    using r C2_ranking_absent_priority_is_normal
      [of "[JObj [(''id'', JStr ''a''), (''priority'', JStr ''low'')],
      JObj [(''id'', JStr ''b'')],
      JObj [(''id'', JStr ''c''), (''priority'', JStr ''urgent'')],
      JObj [(''id'', JStr ''d''), (''priority'', JStr ''critical'')]]"
          "[JObj [(''id'', JStr ''d''), (''priority'', JStr ''critical'')],
      JObj [(''id'', JStr ''b'')],
      JObj [(''id'', JStr ''a''), (''priority'', JStr ''low'')],
      JObj [(''id'', JStr ''c''), (''priority'', JStr ''urgent'')]]"
          2 "[(''id'', JStr ''b'')]" "JStr ''urgent''"]
      C2_ranking_absent_priority_is_normal
      [of "[]" "[]" 0 "[(''id'', JStr ''c''), (''priority'', JStr ''urgent'')]" "JStr ''urgent''"]
    by (simp add: hashable_def)
qed

text \<open>
  The claim as stated fails for an absent priority: such an issue has key 2, not 4, and
  is ranked before an issue of low priority.
\<close>

theorem C2_absent_priority_counterexample:
  "sort_key_of (JObj [(''id'', JStr ''b'')]) = Inr 2
   \<and> rank_issues
     [JObj [(''id'', JStr ''a''), (''priority'', JStr ''low'')],
      JObj [(''id'', JStr ''b'')]]
   = Inr
     [JObj [(''id'', JStr ''b'')],
      JObj [(''id'', JStr ''a''), (''priority'', JStr ''low'')]]"
  by (simp add: sort_key_of_def rank_issues_def)

subsection \<open>Repair\<close>


lemma map_of_update_other:
  "k \<noteq> a \<Longrightarrow> k \<noteq> b \<Longrightarrow> map_of (AList.update a x (AList.update b y kvs)) k = map_of kvs k"
  by (simp add: update_conv')

text \<open>
  Claim C3, as the code has it. Repair only works on an issue whose stored \<^verbatim>\<open>created_at\<close>
  and \<^verbatim>\<open>updated_at\<close> are both present and truthy. For such an issue (with an identifier)
  whose events are \<open>e0 # es\<close>, the first and the last of them carrying the non-empty
  timestamp strings \<open>t0\<close> and \<open>tn\<close>, a live run leaves the record with
  \<^verbatim>\<open>created_at\<close> = \<open>t0\<close> and \<^verbatim>\<open>updated_at\<close> = \<open>tn\<close>, whatever the stored values were,
  and with every other field as it was; the events \<open>[e0, e1, e2]\<close> at \<open>t0 < t1 < t2\<close> of
  the claim are an instance. An issue with an absent or falsy stored field is skipped:
  nothing is written.
\<close>

theorem C3_repair_recomputes_when_both_stored:
  "(truthy (field_of kvs ''id'')
     \<and> truthy (field_of kvs ''created_at'') \<and> truthy (field_of kvs ''updated_at'')
     \<and> issue_events_of (field_of kvs ''id'') events = Inr (e0 # es)
     \<and> dict_get e0 ''timestamp'' JNull = Inr (JStr t0)
     \<and> dict_get (last (e0 # es)) ''timestamp'' JNull = Inr (JStr tn)
     \<and> t0 \<noteq> [] \<and> tn \<noteq> []
     \<longrightarrow> (\<exists>kvs'. (case written (fix_issue_timestamps (JObj kvs) events False) of
                      Some i \<Rightarrow> i | None \<Rightarrow> JObj kvs) = JObj kvs'
            \<and> field_of kvs' ''created_at'' = JStr t0
            \<and> field_of kvs' ''updated_at'' = JStr tn
            \<and> (\<forall>k. k \<noteq> ''created_at'' \<and> k \<noteq> ''updated_at'' \<longrightarrow> map_of kvs' k = map_of kvs k)))
   \<and> (\<not> truthy (field_of kvs ''created_at'') \<or> \<not> truthy (field_of kvs ''updated_at'')
     \<longrightarrow> written (fix_issue_timestamps (JObj kvs) events dry_run) = None)"
proof (intro conjI impI)
  assume a: "truthy (field_of kvs ''id'')
     \<and> truthy (field_of kvs ''created_at'') \<and> truthy (field_of kvs ''updated_at'')
     \<and> issue_events_of (field_of kvs ''id'') events = Inr (e0 # es)
     \<and> dict_get e0 ''timestamp'' JNull = Inr (JStr t0)
     \<and> dict_get (last (e0 # es)) ''timestamp'' JNull = Inr (JStr tn)
     \<and> t0 \<noteq> [] \<and> tn \<noteq> []"
  then have eq: "fix_issue_timestamps (JObj kvs) events False =
     (if py_eq (field_of kvs ''created_at'') (JStr t0) \<and> py_eq (field_of kvs ''updated_at'') (JStr tn)
      then returns [] False
      else \<lparr>written = Some (JObj (AList.update ''updated_at'' (JStr tn)
                (AList.update ''created_at'' (JStr t0) kvs))),
            warnings = [], ret = print_then_return (field_of kvs ''id'') True\<rparr>)"
    by (subst fix_with_events [of kvs events e0 es "JStr t0" "JStr tn"]) simp_all
  show "\<exists>kvs'. (case written (fix_issue_timestamps (JObj kvs) events False) of
                      Some i \<Rightarrow> i | None \<Rightarrow> JObj kvs) = JObj kvs'
            \<and> field_of kvs' ''created_at'' = JStr t0
            \<and> field_of kvs' ''updated_at'' = JStr tn
            \<and> (\<forall>k. k \<noteq> ''created_at'' \<and> k \<noteq> ''updated_at'' \<longrightarrow> map_of kvs' k = map_of kvs k)"
  proof (cases "py_eq (field_of kvs ''created_at'') (JStr t0) \<and> py_eq (field_of kvs ''updated_at'') (JStr tn)")
    case True
    then show ?thesis unfolding eq by (simp add: returns_def)
  next
    case False
    then show ?thesis unfolding eq
      by (auto simp add: field_of_update update_conv')
  qed
next
  assume m: "\<not> truthy (field_of kvs ''created_at'') \<or> \<not> truthy (field_of kvs ''updated_at'')"
  show "written (fix_issue_timestamps (JObj kvs) events dry_run) = None"
  proof (cases "truthy (field_of kvs ''id'')")
    case True
    then show ?thesis by (simp add: fix_no_timestamps [OF True m])
  next
    case False
    then show ?thesis by (simp add: fix_no_id returns_def)
  qed
qed

theorem C3_repair_recomputes_when_both_stored_witness:
  "issue_events_of (JStr ''X'')
     [JObj [(''issue_id'', JStr ''X''), (''type'', JStr ''issue_created''),
            (''timestamp'', JStr ''2024-01-01T00:00:00+00:00'')],
      JObj [(''issue_id'', JStr ''Y''), (''type'', JStr ''issue_created''),
            (''timestamp'', JStr ''2024-01-01T00:00:00+00:00'')],
      JObj [(''issue_id'', JStr ''X''), (''type'', JStr ''issue_claimed''),
            (''timestamp'', JStr ''2024-02-01T00:00:00+00:00'')],
      JObj [(''issue_id'', JStr ''X''), (''type'', JStr ''issue_completed''),
            (''timestamp'', JStr ''2024-03-01T00:00:00+00:00'')]]
   = Inr
     [JObj [(''issue_id'', JStr ''X''), (''type'', JStr ''issue_created''),
            (''timestamp'', JStr ''2024-01-01T00:00:00+00:00'')],
      JObj [(''issue_id'', JStr ''X''), (''type'', JStr ''issue_claimed''),
            (''timestamp'', JStr ''2024-02-01T00:00:00+00:00'')],
      JObj [(''issue_id'', JStr ''X''), (''type'', JStr ''issue_completed''),
            (''timestamp'', JStr ''2024-03-01T00:00:00+00:00'')]]
   \<and> ''2024-01-01T00:00:00+00:00'' < ''2024-02-01T00:00:00+00:00''
   \<and> ''2024-02-01T00:00:00+00:00'' < ''2024-03-01T00:00:00+00:00''
   \<and> (\<exists>kvs'. (case written (fix_issue_timestamps
         (JObj [(''id'', JStr ''X''), (''title'', JStr ''t''),
      (''created_at'', JStr ''2025-06-01T00:00:00+00:00''),
      (''updated_at'', JStr ''2025-06-01T00:00:00+00:00'')])
         [JObj [(''issue_id'', JStr ''X''), (''type'', JStr ''issue_created''),
            (''timestamp'', JStr ''2024-01-01T00:00:00+00:00'')],
      JObj [(''issue_id'', JStr ''Y''), (''type'', JStr ''issue_created''),
            (''timestamp'', JStr ''2024-01-01T00:00:00+00:00'')],
      JObj [(''issue_id'', JStr ''X''), (''type'', JStr ''issue_claimed''),
            (''timestamp'', JStr ''2024-02-01T00:00:00+00:00'')],
      JObj [(''issue_id'', JStr ''X''), (''type'', JStr ''issue_completed''),
            (''timestamp'', JStr ''2024-03-01T00:00:00+00:00'')]]
         False) of
           Some i \<Rightarrow> i
         | None \<Rightarrow> JObj [(''id'', JStr ''X''), (''title'', JStr ''t''),
      (''created_at'', JStr ''2025-06-01T00:00:00+00:00''),
      (''updated_at'', JStr ''2025-06-01T00:00:00+00:00'')])
         = JObj kvs'
       \<and> field_of kvs' ''created_at'' = JStr ''2024-01-01T00:00:00+00:00''
       \<and> field_of kvs' ''updated_at'' = JStr ''2024-03-01T00:00:00+00:00''
       \<and> (\<forall>k. k \<noteq> ''created_at'' \<and> k \<noteq> ''updated_at'' \<longrightarrow>
             map_of kvs' k = map_of [(''id'', JStr ''X''), (''title'', JStr ''t''),
      (''created_at'', JStr ''2025-06-01T00:00:00+00:00''),
      (''updated_at'', JStr ''2025-06-01T00:00:00+00:00'')] k))
   \<and> written (fix_issue_timestamps
         (JObj [(''id'', JStr ''X''), (''title'', JStr ''t'')])
         [JObj [(''issue_id'', JStr ''X''), (''type'', JStr ''issue_created''),
            (''timestamp'', JStr ''2024-01-01T00:00:00+00:00'')],
      JObj [(''issue_id'', JStr ''Y''), (''type'', JStr ''issue_created''),
            (''timestamp'', JStr ''2024-01-01T00:00:00+00:00'')],
      JObj [(''issue_id'', JStr ''X''), (''type'', JStr ''issue_claimed''),
            (''timestamp'', JStr ''2024-02-01T00:00:00+00:00'')],
      JObj [(''issue_id'', JStr ''X''), (''type'', JStr ''issue_completed''),
            (''timestamp'', JStr ''2024-03-01T00:00:00+00:00'')]]
         False) = None"
proof -
  have ev: "issue_events_of (JStr ''X'')
     [JObj [(''issue_id'', JStr ''X''), (''type'', JStr ''issue_created''),
            (''timestamp'', JStr ''2024-01-01T00:00:00+00:00'')],
      JObj [(''issue_id'', JStr ''Y''), (''type'', JStr ''issue_created''),
            (''timestamp'', JStr ''2024-01-01T00:00:00+00:00'')],
      JObj [(''issue_id'', JStr ''X''), (''type'', JStr ''issue_claimed''),
            (''timestamp'', JStr ''2024-02-01T00:00:00+00:00'')],
      JObj [(''issue_id'', JStr ''X''), (''type'', JStr ''issue_completed''),
            (''timestamp'', JStr ''2024-03-01T00:00:00+00:00'')]]
   = Inr
     [JObj [(''issue_id'', JStr ''X''), (''type'', JStr ''issue_created''),
            (''timestamp'', JStr ''2024-01-01T00:00:00+00:00'')],
      JObj [(''issue_id'', JStr ''X''), (''type'', JStr ''issue_claimed''),
            (''timestamp'', JStr ''2024-02-01T00:00:00+00:00'')],
      JObj [(''issue_id'', JStr ''X''), (''type'', JStr ''issue_completed''),
            (''timestamp'', JStr ''2024-03-01T00:00:00+00:00'')]]"
    by simp
  show ?thesis
    using ev
      C3_repair_recomputes_when_both_stored
        [of "[(''id'', JStr ''X''), (''title'', JStr ''t''),
      (''created_at'', JStr ''2025-06-01T00:00:00+00:00''),
      (''updated_at'', JStr ''2025-06-01T00:00:00+00:00'')]"
            "[JObj [(''issue_id'', JStr ''X''), (''type'', JStr ''issue_created''),
            (''timestamp'', JStr ''2024-01-01T00:00:00+00:00'')],
      JObj [(''issue_id'', JStr ''Y''), (''type'', JStr ''issue_created''),
            (''timestamp'', JStr ''2024-01-01T00:00:00+00:00'')],
      JObj [(''issue_id'', JStr ''X''), (''type'', JStr ''issue_claimed''),
            (''timestamp'', JStr ''2024-02-01T00:00:00+00:00'')],
      JObj [(''issue_id'', JStr ''X''), (''type'', JStr ''issue_completed''),
            (''timestamp'', JStr ''2024-03-01T00:00:00+00:00'')]]"
            "JObj [(''issue_id'', JStr ''X''), (''type'', JStr ''issue_created''),
            (''timestamp'', JStr ''2024-01-01T00:00:00+00:00'')]"
            "[JObj [(''issue_id'', JStr ''X''), (''type'', JStr ''issue_claimed''),
            (''timestamp'', JStr ''2024-02-01T00:00:00+00:00'')],
      JObj [(''issue_id'', JStr ''X''), (''type'', JStr ''issue_completed''),
            (''timestamp'', JStr ''2024-03-01T00:00:00+00:00'')]]"
            "''2024-01-01T00:00:00+00:00''"
            "''2024-03-01T00:00:00+00:00''" False]
      C3_repair_recomputes_when_both_stored
        [of "[(''id'', JStr ''X''), (''title'', JStr ''t'')]"
            "[JObj [(''issue_id'', JStr ''X''), (''type'', JStr ''issue_created''),
            (''timestamp'', JStr ''2024-01-01T00:00:00+00:00'')],
      JObj [(''issue_id'', JStr ''Y''), (''type'', JStr ''issue_created''),
            (''timestamp'', JStr ''2024-01-01T00:00:00+00:00'')],
      JObj [(''issue_id'', JStr ''X''), (''type'', JStr ''issue_claimed''),
            (''timestamp'', JStr ''2024-02-01T00:00:00+00:00'')],
      JObj [(''issue_id'', JStr ''X''), (''type'', JStr ''issue_completed''),
            (''timestamp'', JStr ''2024-03-01T00:00:00+00:00'')]]"
            "JObj [(''issue_id'', JStr ''X''), (''type'', JStr ''issue_created''),
            (''timestamp'', JStr ''2024-01-01T00:00:00+00:00'')]"
            "[JObj [(''issue_id'', JStr ''X''), (''type'', JStr ''issue_claimed''),
            (''timestamp'', JStr ''2024-02-01T00:00:00+00:00'')],
      JObj [(''issue_id'', JStr ''X''), (''type'', JStr ''issue_completed''),
            (''timestamp'', JStr ''2024-03-01T00:00:00+00:00'')]]"
            "''2024-01-01T00:00:00+00:00''"
            "''2024-03-01T00:00:00+00:00''" False]
    by (simp add: field_of_def)
qed

text \<open>
  The claim as stated fails when a stored field is absent: Repair skips the issue, and
  the record still has no \<^verbatim>\<open>created_at\<close>.
\<close>

theorem C3_absent_stored_field_counterexample:
  "fix_issue_timestamps
     (JObj [(''id'', JStr ''X''), (''title'', JStr ''t'')])
     [JObj [(''issue_id'', JStr ''X''), (''type'', JStr ''issue_created''),
            (''timestamp'', JStr ''2024-01-01T00:00:00+00:00'')],
      JObj [(''issue_id'', JStr ''Y''), (''type'', JStr ''issue_created''),
            (''timestamp'', JStr ''2024-01-01T00:00:00+00:00'')],
      JObj [(''issue_id'', JStr ''X''), (''type'', JStr ''issue_claimed''),
            (''timestamp'', JStr ''2024-02-01T00:00:00+00:00'')],
      JObj [(''issue_id'', JStr ''X''), (''type'', JStr ''issue_completed''),
            (''timestamp'', JStr ''2024-03-01T00:00:00+00:00'')]]
     False
   = \<lparr>written = None, warnings = [], ret = Inr False\<rparr>"
  by (simp add: fix_issue_timestamps_def print_then_return_def)

subsection \<open>Migrate\<close>

lemma migrate_written_only_when_missing:
  assumes "written (migrate_issue issue events dry_run ft) = Some issue'"
  shows "\<exists>kvs kvs'. issue = JObj kvs \<and> issue' = JObj kvs'
           \<and> (map_of kvs ''created_at'' = None \<or> map_of kvs ''updated_at'' = None)
           \<and> (\<forall>k. k \<noteq> ''created_at'' \<and> k \<noteq> ''updated_at'' \<longrightarrow> map_of kvs' k = map_of kvs k)"
proof (cases issue)
  case (JObj kvs)
  let ?id = "field_of kvs ''id''"
  show ?thesis
  proof (cases "truthy ?id")
    case False
    then show ?thesis using assms by (simp add: JObj migrate_no_id returns_def)
  next
    case id: True
    show ?thesis
    proof (cases "map_of kvs ''created_at'' \<noteq> None \<and> map_of kvs ''updated_at'' \<noteq> None")
      case True
      then show ?thesis using id assms by (simp add: JObj migrate_both returns_def)
    next
      case False
      then have m: "map_of kvs ''created_at'' = None \<or> map_of kvs ''updated_at'' = None"
        by blast
      note eq = migrate_missing [OF id m, of events dry_run ft]
      from assms obtain c u where f: "find_timestamps_from_events ?id events = Inr (c, u)"
        unfolding JObj eq
        by (cases "find_timestamps_from_events ?id events") (auto simp: raises_def)
      from assms obtain x where s: "(if \<not> truthy c then slice8 ?id else Inr JNull) = Inr x"
        unfolding JObj eq f
        by (cases "(if \<not> truthy c then slice8 ?id else Inr JNull)") (auto simp: raises_def)
      from assms have "issue' = JObj (AList.update ''updated_at'' (if \<not> truthy u then JStr ft else u)
                     (AList.update ''created_at'' (if \<not> truthy c then JStr ft else c) kvs))"
        unfolding JObj eq f using s by (auto split: if_splits)
      then show ?thesis using m JObj by (simp add: update_conv')
    qed
  qed
qed (use assms in \<open>simp_all add: migrate_issue_def raises_def\<close>)

lemma migrate_both_unwritten:
  "map_of kvs ''created_at'' \<noteq> None \<Longrightarrow> map_of kvs ''updated_at'' \<noteq> None \<Longrightarrow>
   written (migrate_issue (JObj kvs) events dry_run ft) = None
   \<and> (\<exists>ws. migrate_issue (JObj kvs) events dry_run ft = returns ws False)"
  by (cases "truthy (field_of kvs ''id'')") (simp_all add: migrate_both migrate_no_id returns_def)

text \<open>
  Claim C4, as the code has it. Migrate acts only on issues missing one or both timestamp
  fields: a record that carries both \<^verbatim>\<open>created_at\<close> and \<^verbatim>\<open>updated_at\<close> is not written and
  the call returns \<open>False\<close>; and whenever Migrate writes a record, the record it read was
  missing one of the two fields, and every field other than the two timestamps keeps its
  value. (Nothing is said here of a timestamp field that is present alone.)
\<close>

theorem C4_migrate_only_touches_incomplete_records:
  "(map_of kvs ''created_at'' \<noteq> None \<and> map_of kvs ''updated_at'' \<noteq> None \<longrightarrow>
      written (migrate_issue (JObj kvs) events dry_run ft) = None
      \<and> (\<exists>ws. migrate_issue (JObj kvs) events dry_run ft = returns ws False))
   \<and> (written (migrate_issue issue events dry_run ft) = Some issue' \<longrightarrow>
      (\<exists>kvs0 kvs'. issue = JObj kvs0 \<and> issue' = JObj kvs'
         \<and> (map_of kvs0 ''created_at'' = None \<or> map_of kvs0 ''updated_at'' = None)
         \<and> (\<forall>k. k \<noteq> ''created_at'' \<and> k \<noteq> ''updated_at'' \<longrightarrow>
               map_of kvs' k = map_of kvs0 k)))"
  using migrate_both_unwritten [of kvs events dry_run ft]
    migrate_written_only_when_missing [of issue events dry_run ft issue']
  by blast

theorem C4_migrate_only_touches_incomplete_records_witness:
  "written (migrate_issue
      (JObj [(''id'', JStr ''X''), (''title'', JStr ''t''),
       (''created_at'', JStr ''2020-01-01T00:00:00+00:00''),
       (''updated_at'', JStr ''2020-01-01T00:00:00+00:00'')])
      [] False ''2025-06-01T00:00:00+00:00'') = None
   \<and> written (migrate_issue
      (JObj [(''id'', JStr ''X''), (''title'', JStr ''t'')])
      [] False ''2025-06-01T00:00:00+00:00'')
     = Some (JObj [(''id'', JStr ''X''), (''title'', JStr ''t''),
       (''created_at'', JStr ''2025-06-01T00:00:00+00:00''),
       (''updated_at'', JStr ''2025-06-01T00:00:00+00:00'')])
   \<and> (\<exists>kvs0 kvs'.
        JObj [(''id'', JStr ''X''), (''title'', JStr ''t'')] = JObj kvs0
        \<and> JObj [(''id'', JStr ''X''), (''title'', JStr ''t''),
       (''created_at'', JStr ''2025-06-01T00:00:00+00:00''),
       (''updated_at'', JStr ''2025-06-01T00:00:00+00:00'')] = JObj kvs'
        \<and> (map_of kvs0 ''created_at'' = None \<or> map_of kvs0 ''updated_at'' = None)
        \<and> (\<forall>k. k \<noteq> ''created_at'' \<and> k \<noteq> ''updated_at'' \<longrightarrow>
              map_of kvs' k = map_of kvs0 k))"
proof -
  have w: "written (migrate_issue
      (JObj [(''id'', JStr ''X''), (''title'', JStr ''t'')])
      [] False ''2025-06-01T00:00:00+00:00'')
     = Some (JObj [(''id'', JStr ''X''), (''title'', JStr ''t''),
       (''created_at'', JStr ''2025-06-01T00:00:00+00:00''),
       (''updated_at'', JStr ''2025-06-01T00:00:00+00:00'')])"
    by (simp add: migrate_issue_def find_timestamps_from_events_def print_then_return_def)
  show ?thesis
    using w
      C4_migrate_only_touches_incomplete_records
        [of "[(''id'', JStr ''X''), (''title'', JStr ''t''),
       (''created_at'', JStr ''2020-01-01T00:00:00+00:00''),
       (''updated_at'', JStr ''2020-01-01T00:00:00+00:00'')]"
            "[]" False "''2025-06-01T00:00:00+00:00''"
            "JObj [(''id'', JStr ''X''), (''title'', JStr ''t'')]"
            "JObj [(''id'', JStr ''X''), (''title'', JStr ''t''),
       (''created_at'', JStr ''2025-06-01T00:00:00+00:00''),
       (''updated_at'', JStr ''2025-06-01T00:00:00+00:00'')]"]
    by simp
qed

text \<open>
  The claim as stated fails for a record that has only \<^verbatim>\<open>created_at\<close>: Migrate assigns
  both fields, and the stored \<^verbatim>\<open>created_at\<close> is replaced.
\<close>

theorem C4_lone_field_overwritten_counterexample:
  "written (migrate_issue
      (JObj [(''id'', JStr ''X''), (''created_at'', JStr ''2020-01-01T00:00:00+00:00'')])
      [] False ''2025-06-01T00:00:00+00:00'')
   = Some (JObj [(''id'', JStr ''X''), (''created_at'', JStr ''2025-06-01T00:00:00+00:00''),
       (''updated_at'', JStr ''2025-06-01T00:00:00+00:00'')])"
  by (simp add: migrate_issue_def find_timestamps_from_events_def print_then_return_def)

subsection \<open>What Migrate derives from the events\<close>

text \<open>
  Claim C1 says that Migrate takes \<^verbatim>\<open>created_at\<close> from the issue-creation event, else from
  the first event of the issue, and from the file's modification time only when the issue
  has no event. The code has no second case: \<open>find_created\<close> returns \<^verbatim>\<open>None\<close> when no event
  has \<^verbatim>\<open>event_type\<close> equal to \<^verbatim>\<open>issue_created\<close>, and the modification time is used.
  The events of the log carry their kind under \<^verbatim>\<open>type\<close> (\<^verbatim>\<open>fix_timestamps.py\<close> was written
  to repair just this), so for an issue with two events, the first its creation, Migrate
  writes the modification time as \<^verbatim>\<open>created_at\<close>.
\<close>

theorem C1_created_at_is_mtime_despite_events:
  "issue_events_of (JStr ''X'')
      [JObj [(''issue_id'', JStr ''X''), (''type'', JStr ''issue_created''),
             (''timestamp'', JStr ''2024-01-01T00:00:00+00:00'')],
       JObj [(''issue_id'', JStr ''X''), (''type'', JStr ''issue_claimed''),
             (''timestamp'', JStr ''2024-02-01T00:00:00+00:00'')]]
    = Inr
      [JObj [(''issue_id'', JStr ''X''), (''type'', JStr ''issue_created''),
             (''timestamp'', JStr ''2024-01-01T00:00:00+00:00'')],
       JObj [(''issue_id'', JStr ''X''), (''type'', JStr ''issue_claimed''),
             (''timestamp'', JStr ''2024-02-01T00:00:00+00:00'')]]
   \<and> find_timestamps_from_events (JStr ''X'')
      [JObj [(''issue_id'', JStr ''X''), (''type'', JStr ''issue_created''),
             (''timestamp'', JStr ''2024-01-01T00:00:00+00:00'')],
       JObj [(''issue_id'', JStr ''X''), (''type'', JStr ''issue_claimed''),
             (''timestamp'', JStr ''2024-02-01T00:00:00+00:00'')]]
    = Inr (JNull, JStr ''2024-02-01T00:00:00+00:00'')
   \<and> written (migrate_issue (JObj [(''id'', JStr ''X'')])
      [JObj [(''issue_id'', JStr ''X''), (''type'', JStr ''issue_created''),
             (''timestamp'', JStr ''2024-01-01T00:00:00+00:00'')],
       JObj [(''issue_id'', JStr ''X''), (''type'', JStr ''issue_claimed''),
             (''timestamp'', JStr ''2024-02-01T00:00:00+00:00'')]]
      False ''2025-06-01T00:00:00+00:00'')
    = Some (JObj [(''id'', JStr ''X''),
              (''created_at'', JStr ''2025-06-01T00:00:00+00:00''),
              (''updated_at'', JStr ''2024-02-01T00:00:00+00:00'')])"
  by (simp add: migrate_issue_def find_timestamps_from_events_def print_then_return_def)

text \<open>
  Claim C5 says that the timestamps the reconciler sets satisfy
  \<^verbatim>\<open>created_at\<close> \<open>\<le>\<close> \<^verbatim>\<open>updated_at\<close>, and that \<^verbatim>\<open>created_at\<close> is not later than the earliest
  event of the issue. On the same input Migrate writes the file's modification time as
  \<^verbatim>\<open>created_at\<close> and the last event's timestamp as \<^verbatim>\<open>updated_at\<close>: the first is later
  than the second, and later than the earliest event.
\<close>

theorem C5_migrate_created_after_updated:
  "written (migrate_issue (JObj [(''id'', JStr ''X'')])
      [JObj [(''issue_id'', JStr ''X''), (''type'', JStr ''issue_created''),
             (''timestamp'', JStr ''2024-01-01T00:00:00+00:00'')],
       JObj [(''issue_id'', JStr ''X''), (''type'', JStr ''issue_claimed''),
             (''timestamp'', JStr ''2024-02-01T00:00:00+00:00'')]]
      False ''2025-06-01T00:00:00+00:00'')
    = Some (JObj [(''id'', JStr ''X''),
              (''created_at'', JStr ''2025-06-01T00:00:00+00:00''),
              (''updated_at'', JStr ''2024-02-01T00:00:00+00:00'')])
   \<and> \<not> ts_le (JStr ''2025-06-01T00:00:00+00:00'') (JStr ''2024-02-01T00:00:00+00:00'')
   \<and> \<not> ts_le (JStr ''2025-06-01T00:00:00+00:00'') (JStr ''2024-01-01T00:00:00+00:00'')
   \<and> ts_le (JStr ''2024-01-01T00:00:00+00:00'') (JStr ''2024-02-01T00:00:00+00:00'')"
  by (simp add: migrate_issue_def find_timestamps_from_events_def print_then_return_def
      ts_le_def)

subsection \<open>Failures of the query\<close>

lemma query_failure_caught:
  "run_query = CalledProcessError \<or> (\<exists>out. run_query = Completed out \<and> loads out = None) \<Longrightarrow>
   query_ready_issues loads run_query = (Inr (JArr []), [QueryError])"
  by (auto simp: query_ready_issues_def)

text \<open>
  Claim C8, as the code has it. \<open>query_ready_issues\<close> catches two exceptions:
  \<^verbatim>\<open>CalledProcessError\<close> (the process exits with a non-zero status) and
  \<^verbatim>\<open>JSONDecodeError\<close> (its output is not JSON). In both cases it reports the error and
  returns the empty list, and the dispatch cycle returns 0 assignments, the pool and the
  store untouched.
\<close>

theorem C8_caught_query_failures_yield_zero:
  "run_query = CalledProcessError \<or> (\<exists>out. run_query = Completed out \<and> loads out = None) \<longrightarrow>
     query_ready_issues loads run_query = (Inr (JArr []), [QueryError])
     \<and> dispatch_cycle loads run_query run_claim w agents
       = \<lparr>pool = agents, store = w, reported = [QueryError], result = Inr 0\<rparr>"
  using query_failure_caught [of run_query loads]
  by (auto simp: dispatch_cycle_def)

theorem C8_caught_query_failures_yield_zero_witness:
  "query_ready_issues Map.empty (Completed ''not json'') = (Inr (JArr []), [QueryError])
   \<and> dispatch_cycle Map.empty (Completed ''not json'') refusing_store ()
        [\<lparr>agent_id = ''A'', max_concurrent = 1, current_load = 0\<rparr>]
      = \<lparr>pool = [\<lparr>agent_id = ''A'', max_concurrent = 1, current_load = 0\<rparr>], store = (),
          reported = [QueryError], result = Inr 0\<rparr>
   \<and> dispatch_cycle Map.empty CalledProcessError refusing_store ()
        [\<lparr>agent_id = ''A'', max_concurrent = 1, current_load = 0\<rparr>]
      = \<lparr>pool = [\<lparr>agent_id = ''A'', max_concurrent = 1, current_load = 0\<rparr>], store = (),
          reported = [QueryError], result = Inr 0\<rparr>"
  using C8_caught_query_failures_yield_zero
      [of "Completed ''not json''" Map.empty refusing_store "()"
          "[\<lparr>agent_id = ''A'', max_concurrent = 1, current_load = 0\<rparr>]"]
    C8_caught_query_failures_yield_zero
      [of CalledProcessError Map.empty refusing_store "()"
          "[\<lparr>agent_id = ''A'', max_concurrent = 1, current_load = 0\<rparr>]"]
  by simp

text \<open>
  The claim as stated fails for a response that is malformed in another way: the output
  \<^verbatim>\<open>[]\<close> is JSON, but not an object, \<^verbatim>\<open>data.get\<close> raises \<^verbatim>\<open>AttributeError\<close>, nothing is
  reported and the cycle ends with the exception.
\<close>

theorem C8_malformed_response_counterexample:
  "query_ready_issues [''[]'' \<mapsto> JArr []] (Completed ''[]'') = (Inl AttributeError, [])
   \<and> dispatch_cycle [''[]'' \<mapsto> JArr []] (Completed ''[]'') refusing_store ()
        [\<lparr>agent_id = ''A'', max_concurrent = 1, current_load = 0\<rparr>]
      = \<lparr>pool = [\<lparr>agent_id = ''A'', max_concurrent = 1, current_load = 0\<rparr>], store = (),
          reported = [], result = Inl AttributeError\<rparr>"
  by (simp add: query_ready_issues_def dispatch_cycle_def)

subsection \<open>Malformed records\<close>

lemma load_lines_append:
  "load_lines strip loads (xs @ ys) =
     (fst (load_lines strip loads xs) @ fst (load_lines strip loads ys),
      snd (load_lines strip loads xs) @ snd (load_lines strip loads ys))"
  by (induction xs) (auto simp: Let_def split: prod.splits option.splits)

lemma load_lines_skips_unparseable:
  assumes "strip bad \<noteq> []" "loads (strip bad) = None"
  shows "load_lines strip loads (before @ bad # after) =
     (fst (load_lines strip loads (before @ after)),
      snd (load_lines strip loads before) @ ParseWarning # snd (load_lines strip loads after))"
  using assms
  by (simp add: load_lines_append Let_def split: prod.splits)

lemma migrate_files_skips_no_id:
  "\<not> truthy (field_of kvs ''id'') \<Longrightarrow>
   migrate_files events dry_run ((JObj kvs, mtime) # fs) n =
     (case migrate_files events dry_run fs n of
        (rest, ws, res) \<Rightarrow> (JObj kvs # rest, NoIdWarning # ws, res))"
  by (simp add: migrate_no_id returns_def split: prod.splits)

lemma fix_files_skips_no_id:
  "\<not> truthy (field_of kvs ''id'') \<Longrightarrow>
   fix_files events dry_run (JObj kvs # fs) n =
     (case fix_files events dry_run fs n of
        (rest, ws, res) \<Rightarrow> (JObj kvs # rest, NoIdWarning # ws, res))"
  by (simp add: fix_no_id returns_def split: prod.splits)

text \<open>
  Claim C9, as the code has it, for the reconciler. A line of the event log that is not
  JSON is skipped with a warning, and the lines before and after it are loaded as if it
  were not there. An issue record without an identifier (absent, \<^verbatim>\<open>null\<close> or empty) is
  skipped with a warning by \<open>migrate_issue\<close> and by \<open>fix_issue_timestamps\<close>, which return
  \<open>False\<close> and write nothing, and the pass goes on with the remaining records.
\<close>

theorem C9_reconciler_skips_malformed_records:
  "(strip bad \<noteq> [] \<and> loads (strip bad) = None \<longrightarrow>
      load_lines strip loads (before @ bad # after) =
        (fst (load_lines strip loads (before @ after)),
         snd (load_lines strip loads before) @ ParseWarning # snd (load_lines strip loads after)))
   \<and> (\<not> truthy (field_of kvs ''id'') \<longrightarrow>
        migrate_issue (JObj kvs) events dry_run mtime = returns [NoIdWarning] False
        \<and> fix_issue_timestamps (JObj kvs) events dry_run = returns [NoIdWarning] False
        \<and> migrate_files events dry_run ((JObj kvs, mtime) # fs) n =
            (case migrate_files events dry_run fs n of
               (rest, ws, res) \<Rightarrow> (JObj kvs # rest, NoIdWarning # ws, res))
        \<and> fix_files events dry_run (JObj kvs # issues) n =
            (case fix_files events dry_run issues n of
               (rest, ws, res) \<Rightarrow> (JObj kvs # rest, NoIdWarning # ws, res)))"
  using load_lines_skips_unparseable [of strip bad loads before after]
    migrate_files_skips_no_id [of kvs events dry_run mtime fs n]
    fix_files_skips_no_id [of kvs events dry_run issues n]
  by (simp add: migrate_no_id fix_no_id)

theorem C9_reconciler_skips_malformed_records_witness:
  "load_lines id
       [''line 1'' \<mapsto> JObj [(''issue_id'', JStr ''X''), (''timestamp'', JStr ''2024-01-01T00:00:00+00:00'')],
        ''line 3'' \<mapsto> JObj [(''issue_id'', JStr ''Y''), (''timestamp'', JStr ''2024-01-01T00:00:00+00:00'')]]
       [''line 1'', ''not json'', ''line 3'']
     = ([JObj [(''issue_id'', JStr ''X''), (''timestamp'', JStr ''2024-01-01T00:00:00+00:00'')],
         JObj [(''issue_id'', JStr ''Y''), (''timestamp'', JStr ''2024-01-01T00:00:00+00:00'')]],
        [ParseWarning])
   \<and> migrate_issue (JObj [(''title'', JStr ''t'')]) [] False ''2025-06-01T00:00:00+00:00''
     = returns [NoIdWarning] False
   \<and> migrate_files [] False
       [(JObj [(''title'', JStr ''t'')], ''2025-06-01T00:00:00+00:00''),
        (JObj [(''id'', JStr ''X'')], ''2025-06-01T00:00:00+00:00'')] 0
     = ([JObj [(''title'', JStr ''t'')],
         JObj [(''id'', JStr ''X''), (''created_at'', JStr ''2025-06-01T00:00:00+00:00''),
               (''updated_at'', JStr ''2025-06-01T00:00:00+00:00'')]],
        [NoIdWarning], Inr 1)
   \<and> fix_files [] False
       [JObj [(''title'', JStr ''t'')], JObj [(''id'', JStr ''X'')]] 0
     = ([JObj [(''title'', JStr ''t'')], JObj [(''id'', JStr ''X'')]],
        [NoIdWarning], Inr 0)"
  using C9_reconciler_skips_malformed_records
      [of id "''not json''"
          "[''line 1'' \<mapsto> JObj [(''issue_id'', JStr ''X''), (''timestamp'', JStr ''2024-01-01T00:00:00+00:00'')],
        ''line 3'' \<mapsto> JObj [(''issue_id'', JStr ''Y''), (''timestamp'', JStr ''2024-01-01T00:00:00+00:00'')]]"
          "[''line 1'']" "[''line 3'']"
          "[(''title'', JStr ''t'')]" "[]" False "''2025-06-01T00:00:00+00:00''"
          "[(JObj [(''id'', JStr ''X'')], ''2025-06-01T00:00:00+00:00'')]" 0
          "[JObj [(''id'', JStr ''X'')]]"]
  by (simp add: field_of_def migrate_issue_def fix_issue_timestamps_def
      find_timestamps_from_events_def print_then_return_def returns_def)

text \<open>
  The claim as stated fails in the dispatch cycle, where a ready issue without \<^verbatim>\<open>id\<close>
  makes \<^verbatim>\<open>issue["id"]\<close> raise \<^verbatim>\<open>KeyError\<close> and the cycle ends; and it fails for a line of
  the event log that is JSON but not an object, which \<open>load_lines\<close> keeps and
  \<^verbatim>\<open>e.get\<close> then raises on, ending the pass at the first issue that needs the events.
\<close>

theorem C9_malformed_record_aborts_counterexample:
  "dispatch_cycle
       [''response'' \<mapsto> JObj [(''issues'', JArr
           [JObj [(''priority'', JStr ''high'')], JObj [(''id'', JStr ''i2'')]])]]
       (Completed ''response'') refusing_store ()
       [\<lparr>agent_id = ''A'', max_concurrent = 1, current_load = 0\<rparr>]
     = \<lparr>pool = [\<lparr>agent_id = ''A'', max_concurrent = 1, current_load = 0\<rparr>], store = (),
         reported = [], result = Inl KeyError\<rparr>
   \<and> load_lines id [''42'' \<mapsto> JNum 42] [''42''] = ([JNum 42], [])
   \<and> migrate_files [JNum 42] False
       [(JObj [(''id'', JStr ''X'')], ''2025-06-01T00:00:00+00:00''),
        (JObj [(''id'', JStr ''Y'')], ''2025-06-01T00:00:00+00:00'')] 0
     = ([JObj [(''id'', JStr ''X'')], JObj [(''id'', JStr ''Y'')]], [], Inl AttributeError)"
  by (simp add: dispatch_cycle_def query_ready_issues_def rank_issues_def sort_key_of_def
      get_available_agent_def migrate_issue_def find_timestamps_from_events_def raises_def)

end
